theory Spec2Isabelle
  imports Complex_Main "HOL-Library.Word"
begin

section \<open>The faucet binding \<open>src/contracts/Faucet_Integrate.js\<close>\<close>

text \<open>
  The module is a set of asynchronous functions that call a deployed faucet contract
  through the ethers library and the browser's wallet provider. The embedding keeps the
  order of the source's statements: every \<open>await\<close>ed provider or contract call and every
  console call is an event of a trace, every \<open>throw\<close> or rejected promise is an
  \<open>Inl\<close> result, and the answers of the wallet and of the chain are fields of an
  environment record.
\<close>

subsection \<open>Decimal digit strings\<close>

definition is_digit :: "char \<Rightarrow> bool" where
  \<comment> \<open>the character class \<open>[0-9]\<close>\<close>
  "is_digit c = (c \<in> set ''0123456789'')"

definition digit_char :: "nat \<Rightarrow> char" where
  "digit_char d = ''0123456789'' ! d"

definition digit_val :: "char \<Rightarrow> nat" where
  "digit_val c = of_char c - 48"

fun digits :: "nat \<Rightarrow> string" where
  \<comment> \<open>\<open>BigInt.prototype.toString()\<close> and \<open>Number.prototype.toString()\<close> on a
      non-negative integer: its decimal digits, most significant first\<close>
  "digits n = (if n < 10 then [digit_char n] else digits (n div 10) @ [digit_char (n mod 10)])"

declare digits.simps [simp del]

definition nat_of_digits :: "string \<Rightarrow> nat" where
  \<comment> \<open>\<open>BigInt(str)\<close> on a string of decimal digits (the empty string is \<open>0n\<close>)\<close>
  "nat_of_digits s = foldl (\<lambda>a c. 10 * a + digit_val c) 0 s"

subsection \<open>Errors\<close>

datatype error =
    Error string              \<comment> \<open>\<open>new Error(message)\<close>, thrown by the module itself\<close>
  | INVALID_ARGUMENT string   \<comment> \<open>ethers \<open>assertArgument\<close>: the message\<close>
  | NUMERIC_FAULT string      \<comment> \<open>ethers \<open>assert(..., "NUMERIC_FAULT")\<close>: the fault\<close>
  | TypeError string          \<comment> \<open>the JavaScript runtime's \<open>TypeError\<close>\<close>
  | Rejected string           \<comment> \<open>an error of the wallet provider, the network or the
                                  remote contract (a rejected request, a revert)\<close>

fun message :: "error \<Rightarrow> string" where
  \<comment> \<open>\<open>error.message\<close>\<close>
  "message (Error m) = m"
| "message (INVALID_ARGUMENT m) = m"
| "message (NUMERIC_FAULT m) = m"
| "message (TypeError m) = m"
| "message (Rejected m) = m"

text \<open>The names the specification gives to the three errors the module throws itself.\<close>

definition ProviderUnavailable :: error where
  "ProviderUnavailable = Error ''MetaMask not detected''"

definition ConfigurationError :: error where
  "ConfigurationError = Error ''Faucet contract address is undefined''"

definition InvalidAmount :: error where
  "InvalidAmount = Error ''Amount is required''"

subsection \<open>The ethers unit conversions\<close>

text \<open>
  \<open>ethers.parseUnits\<close> and \<open>ethers.formatUnits\<close> are imported at line 1 of the source;
  their code is the library's (ethers v6, \<open>utils/units.ts\<close> and \<open>utils/fixednumber.ts\<close>),
  not the repository's.
\<close>

definition Zeros :: string where
  "Zeros = ''0000''"

definition match_decimal :: "string \<Rightarrow> (string \<times> string \<times> string) option" where
  \<comment> \<open>the groups of \<open>/^(-?)([0-9]*)\.?([0-9]*)$/\<close>, or \<open>None\<close> when the string does not match\<close>
  "match_decimal v =
     (let (sign, r1) = (case v of [] \<Rightarrow> ('''', v)
                        | c # r \<Rightarrow> if c = CHR ''-'' then (''-'', r) else ('''', v));
          whole = takeWhile is_digit r1;
          r2 = dropWhile is_digit r1;
          r3 = (case r2 of [] \<Rightarrow> r2 | c # r \<Rightarrow> if c = CHR ''.'' then r else r2);
          decimal = takeWhile is_digit r3;
          r4 = dropWhile is_digit r3
      in if r4 = [] then Some (sign, whole, decimal) else None)"

function pad_decimal :: "nat \<Rightarrow> string \<Rightarrow> string" where
  \<comment> \<open>\<open>while (decimal.length < format.decimals) { decimal += Zeros; }\<close>\<close>
  "pad_decimal decimals decimal =
     (if length decimal < decimals then pad_decimal decimals (decimal @ Zeros) else decimal)"
  by pat_completeness auto
termination
  by (relation "measure (\<lambda>(decimals, decimal). decimals - length decimal)")
     (auto simp: Zeros_def)

declare pad_decimal.simps [simp del]

definition checkValue :: "int \<Rightarrow> bool" where
  \<comment> \<open>the signed format of width 512: \<open>val >= -limit && val < limit\<close> with
      \<open>limit = 1 << 511\<close>\<close>
  "checkValue val = (- (2 ^ 511) \<le> val \<and> val < 2 ^ 511)"

definition parseUnits :: "string \<Rightarrow> nat \<Rightarrow> error + int" where
  \<comment> \<open>Modelled from the spec: \<open>ethers.parseUnits(value, decimals)\<close> is library code that
      is not in the repository. The spec asks for exact fixed-point scaling of the
      decimal text by \<open>10^decimals\<close>; the definition does it the way the library's
      \<open>FixedNumber.fromString(value, {decimals, width: 512})\<close> does: match the text,
      pad the fraction with zeros, refuse a fraction that would lose digits, read the
      digits as one integer, and refuse a value outside the signed 512-bit range.\<close>
  "parseUnits v decimals =
     (case match_decimal v of
        None \<Rightarrow> Inl (INVALID_ARGUMENT ''invalid FixedNumber string value'')
      | Some (sign, whole0, decimal0) \<Rightarrow>
          if length whole0 + length decimal0 = 0
          then Inl (INVALID_ARGUMENT ''invalid FixedNumber string value'')
          else if 80 < decimals
          then Inl (INVALID_ARGUMENT ''invalid FixedNumber decimals (too large)'')
          else
            let whole = (if whole0 = [] then ''0'' else whole0);
                decimal = pad_decimal decimals decimal0
            in if \<not> list_all (\<lambda>c. c = CHR ''0'') (drop decimals decimal)
               then Inl (NUMERIC_FAULT ''underflow'')
               else
                 let magnitude = int (nat_of_digits (whole @ take decimals decimal));
                     val = (if sign = ''-'' then - magnitude else magnitude)
                 in if checkValue val then Inr val else Inl (NUMERIC_FAULT ''overflow''))"

function pad_whole :: "nat \<Rightarrow> string \<Rightarrow> string" where
  \<comment> \<open>\<open>while (str.length <= decimals) { str = Zeros + str; }\<close>\<close>
  "pad_whole decimals str =
     (if length str \<le> decimals then pad_whole decimals (Zeros @ str) else str)"
  by pat_completeness auto
termination
  by (relation "measure (\<lambda>(decimals, str). Suc decimals - length str)")
     (auto simp: Zeros_def)

declare pad_whole.simps [simp del]

fun trim_whole :: "string \<Rightarrow> string" where
  \<comment> \<open>\<open>while (str[0] === "0" && str[1] !== ".") { str = str.substring(1); }\<close>;
      past the end \<open>str[1]\<close> is \<open>undefined\<close>, which is not \<open>"."\<close>\<close>
  "trim_whole [] = []"
| "trim_whole [c] = (if c = CHR ''0'' then [] else [c])"
| "trim_whole (c # d # s) =
     (if c = CHR ''0'' \<and> d \<noteq> CHR ''.'' then trim_whole (d # s) else c # d # s)"

definition trim_decimal :: "string \<Rightarrow> string" where
  \<comment> \<open>\<open>while (str[str.length - 1] === "0" && str[str.length - 2] !== ".")
      { str = str.substring(0, str.length - 1); }\<close>: the same loop from the other end\<close>
  "trim_decimal str = rev (trim_whole (rev str))"

definition fixed_toString :: "int \<Rightarrow> nat \<Rightarrow> string" where
  \<comment> \<open>\<open>toString(val, decimals)\<close> of \<open>fixednumber.ts\<close>\<close>
  "fixed_toString val decimals =
     (let negative = (if val < 0 then ''-'' else '''');
          str = digits (nat \<bar>val\<bar>)
      in if decimals = 0 then negative @ str
         else
           let str1 = pad_whole decimals str;
               index = length str1 - decimals;
               str2 = take index str1 @ ''.'' @ drop index str1
           in negative @ trim_decimal (trim_whole str2))"

definition formatUnits :: "int \<Rightarrow> nat \<Rightarrow> error + string" where
  \<comment> \<open>Modelled from the spec: \<open>ethers.formatUnits(value, decimals)\<close> is library code that
      is not in the repository. The spec asks for the scaled integer divided by
      \<open>10^decimals\<close> as a decimal text; the definition is the library's
      \<open>FixedNumber.fromValue(value, decimals, {decimals, width: 512}).toString()\<close>.\<close>
  "formatUnits val decimals =
     (if 80 < decimals then Inl (INVALID_ARGUMENT ''invalid FixedNumber decimals (too large)'')
      else if \<not> checkValue val then Inl (NUMERIC_FAULT ''overflow'')
      else Inr (fixed_toString val decimals))"

definition decimal_value :: "string \<Rightarrow> rat option" where
  \<comment> \<open>the number a decimal text denotes: an optional minus sign, digits, optionally a
      point and digits, with at least one digit; \<open>None\<close> for any other text\<close>
  "decimal_value s =
     (let (negative, body) =
            (case s of [] \<Rightarrow> (False, s)
             | c # r \<Rightarrow> if c = CHR ''-'' then (True, r) else (False, s));
          whole = takeWhile (\<lambda>c. c \<noteq> CHR ''.'') body;
          fraction = drop 1 (dropWhile (\<lambda>c. c \<noteq> CHR ''.'') body);
          magnitude =
            of_nat (nat_of_digits whole) + of_nat (nat_of_digits fraction) / 10 ^ length fraction
      in if list_all is_digit whole \<and> list_all is_digit fraction \<and>
            (whole \<noteq> [] \<or> fraction \<noteq> [])
         then Some (if negative then - magnitude else magnitude)
         else None)"

subsection \<open>JavaScript values an amount can be\<close>

datatype number =
    NaN
  | Infinity bool       \<comment> \<open>\<open>True\<close>: negative\<close>
  | Finite bool nat int \<comment> \<open>\<open>Finite neg m e\<close> is the Number \<open>m * 10^e\<close>, negated when
                            \<open>neg\<close>: a Number is identified with the decimal that
                            \<open>Number.prototype.toString\<close> prints for it\<close>

datatype jsvalue = Undefined | Null | Number number | String string

fun truthy :: "jsvalue \<Rightarrow> bool" where
  \<comment> \<open>\<open>ToBoolean\<close>: \<open>!amount\<close> is \<open>\<not> truthy amount\<close>\<close>
  "truthy Undefined = False"
| "truthy Null = False"
| "truthy (Number NaN) = False"
| "truthy (Number (Infinity neg)) = True"
| "truthy (Number (Finite neg m e)) = (m \<noteq> 0)"
| "truthy (String s) = (s \<noteq> [])"

definition Number_toString :: "number \<Rightarrow> string" where
  \<comment> \<open>\<open>Number::toString\<close> of ECMA-262 in radix 10: with \<open>k\<close> significant digits and
      \<open>n\<close> the position of the decimal point, plain notation for \<open>-6 < n \<le> 21\<close> and
      exponent notation otherwise\<close>
  "Number_toString x =
     (case x of
        NaN \<Rightarrow> ''NaN''
      | Infinity neg \<Rightarrow> (if neg then ''-Infinity'' else ''Infinity'')
      | Finite neg m e \<Rightarrow>
          if m = 0 then ''0''
          else
            let s = rev (dropWhile (\<lambda>c. c = CHR ''0'') (rev (digits m)));
                k = int (length s);
                n = int (length (digits m)) + e;
                body =
                  (if k \<le> n \<and> n \<le> 21 then s @ replicate (nat (n - k)) (CHR ''0'')
                   else if 0 < n \<and> n \<le> 21 then take (nat n) s @ ''.'' @ drop (nat n) s
                   else if - 6 < n \<and> n \<le> 0 then ''0.'' @ replicate (nat (- n)) (CHR ''0'') @ s
                   else
                     let c = (if n - 1 < 0 then ''-'' else ''+'');
                         ex = digits (nat \<bar>n - 1\<bar>)
                     in if k = 1 then s @ ''e'' @ c @ ex
                        else take 1 s @ ''.'' @ drop 1 s @ ''e'' @ c @ ex)
            in (if neg then ''-'' else []) @ body)"

fun ToString :: "jsvalue \<Rightarrow> string" where
  \<comment> \<open>the conversion a template literal \<open>`${amount}`\<close> applies\<close>
  "ToString Undefined = ''undefined''"
| "ToString Null = ''null''"
| "ToString (Number x) = Number_toString x"
| "ToString (String s) = s"

fun toString :: "jsvalue \<Rightarrow> error + string" where
  \<comment> \<open>the method call \<open>amount.toString()\<close>\<close>
  "toString Undefined = Inl (TypeError ''Cannot read properties of undefined'')"
| "toString Null = Inl (TypeError ''Cannot read properties of null'')"
| "toString v = Inr (ToString v)"

definition toLowerCase :: "string \<Rightarrow> string" where
  \<comment> \<open>\<open>String.prototype.toLowerCase\<close> on the ASCII text of an address\<close>
  "toLowerCase s =
     map (\<lambda>c. case map_of (zip ''ABCDEFGHIJKLMNOPQRSTUVWXYZ'' ''abcdefghijklmnopqrstuvwxyz'') c of
                None \<Rightarrow> c
              | Some l \<Rightarrow> l) s"

definition toUpperCase :: "string \<Rightarrow> string" where
  \<comment> \<open>\<open>String.prototype.toUpperCase\<close> on the ASCII text of an address\<close>
  "toUpperCase s =
     map (\<lambda>c. case map_of (zip ''abcdefghijklmnopqrstuvwxyz'' ''ABCDEFGHIJKLMNOPQRSTUVWXYZ'') c of
                None \<Rightarrow> c
              | Some u \<Rightarrow> u) s"

subsection \<open>Amounts as decimal quantities\<close>





subsection \<open>Effects: the trace of provider requests and console calls\<close>

datatype callarg = Addr string | Uint int

datatype call =
    getSigner                          \<comment> \<open>\<open>provider.getSigner()\<close>\<close>
  | eth_requestAccounts                \<comment> \<open>\<open>window.ethereum.request({ method: 'eth_requestAccounts' })\<close>\<close>
  | Call string string "callarg list"  \<comment> \<open>a method of the contract at an address, with arguments\<close>
  | wait string                        \<comment> \<open>\<open>tx.wait()\<close> of the transaction with this hash\<close>
  | resolveName string                 \<comment> \<open>the lookup of a name that is not a hexadecimal address\<close>

datatype logarg = Txt string | Big int | Err error | Raw jsvalue

datatype event =
    Request call
  | console_log "logarg list"
  | console_error "logarg list"

fun requests :: "event list \<Rightarrow> call list" where
  \<comment> \<open>the requests of a trace, without the console calls\<close>
  "requests [] = []"
| "requests (Request c # t) = c # requests t"
| "requests (_ # t) = requests t"

type_synonym 'a io = "(error + 'a) \<times> event list"

definition ok :: "'a \<Rightarrow> 'a io" where
  \<comment> \<open>\<open>return x\<close>\<close>
  "ok x = (Inr x, [])"

definition throw :: "error \<Rightarrow> 'a io" where
  "throw e = (Inl e, [])"

definition lift :: "error + 'a \<Rightarrow> 'a io" where
  \<comment> \<open>a library call that returns or throws without any request\<close>
  "lift r = (r, [])"

definition request :: "call \<Rightarrow> error + 'a \<Rightarrow> 'a io" where
  \<comment> \<open>a request to the provider, with the answer the environment gives\<close>
  "request c r = (r, [Request c])"

definition print_log :: "logarg list \<Rightarrow> unit io" where
  "print_log args = (Inr (), [console_log args])"

definition print_error :: "logarg list \<Rightarrow> unit io" where
  "print_error args = (Inr (), [console_error args])"

definition await :: "'a io \<Rightarrow> ('a \<Rightarrow> 'b io) \<Rightarrow> 'b io" where
  \<comment> \<open>\<open>const x = await m; k(x)\<close>: an error of \<open>m\<close> skips the rest\<close>
  "await m k =
     (case m of
        (Inl e, t) \<Rightarrow> (Inl e, t)
      | (Inr x, t) \<Rightarrow> (case k x of (r, t') \<Rightarrow> (r, t @ t')))"

definition seq :: "unit io \<Rightarrow> 'b io \<Rightarrow> 'b io" where
  \<comment> \<open>one statement after another\<close>
  "seq m k = await m (\<lambda>_. k)"

definition try_catch :: "'a io \<Rightarrow> (error \<Rightarrow> 'a io) \<Rightarrow> 'a io" where
  \<comment> \<open>\<open>try { body } catch (error) { handler(error) }\<close>\<close>
  "try_catch body handler =
     (case body of
        (Inl e, t) \<Rightarrow> (case handler e of (r, t') \<Rightarrow> (r, t @ t'))
      | (Inr x, t) \<Rightarrow> (Inr x, t))"

subsection \<open>The environment: the wallet, the chain and the configuration\<close>

record tx =
  hash :: string

record env =
  window_ethereum :: bool
    \<comment> \<open>whether \<open>window.ethereum\<close> is present\<close>
  signer_result :: "error + string"
    \<comment> \<open>the answer to \<open>provider.getSigner()\<close>: the active account\<close>
  accounts_result :: "error + string list"
    \<comment> \<open>the answer to \<open>eth_requestAccounts\<close>\<close>
  requestTokens_result :: "256 word \<Rightarrow> error + tx"
  wait_result :: "tx \<Rightarrow> error + unit"
  getRemainingAllowance_result :: "string \<Rightarrow> error + 256 word"
  usdcToken_result :: "error + string"
  getFaucetBalance_result :: "error + 256 word"
  timeUntilNextAutoMint_result :: "error + 256 word"
  decimals_result :: "string \<Rightarrow> error + 8 word"
    \<comment> \<open>\<open>decimals()\<close> of the token contract at an address\<close>
  balanceOf_result :: "string \<Rightarrow> string \<Rightarrow> error + 256 word"
    \<comment> \<open>\<open>balanceOf(holder)\<close> of the token contract at an address\<close>
  double_breakdown :: "nat \<Rightarrow> string"
    \<comment> \<open>the days/hours/minutes text for a duration above \<open>2^53\<close>, where
        \<open>Number(timeInSeconds)\<close> rounds to a double: left open\<close>
  keccak256_high :: "string \<Rightarrow> nat \<Rightarrow> bool"
    \<comment> \<open>whether hexadecimal digit \<open>i\<close> of the Keccak-256 hash of a text is 8 or more;
        the hash function itself is left open\<close>
  resolveName_result :: "string \<Rightarrow> error + string"
    \<comment> \<open>the answer to a name lookup through the provider; a name that does not
        resolve is an error\<close>

datatype runner = Signer string | Provider

record contract =
  target :: string
  abi :: "string list"
  runner :: runner

definition FAUCET_ADDRESS :: string where
  "FAUCET_ADDRESS = ''0x2F10297555813b8706e9E0eF72fAfAb729516B65''"

definition FAUCET_ABI :: "string list" where
  "FAUCET_ABI =
     [''function requestTokens(uint256 amount) external'',
      ''function getRemainingAllowance(address user) external view returns (uint256)'',
      ''function getFaucetBalance() external view returns (uint256)'',
      ''function tryAutoMint() public'',
      ''function timeUntilNextAutoMint() external view returns (uint256)'',
      ''function lastAutoMintTime() external view returns (uint256)'',
      ''function forceAutoMint() external'',
      ''function withdrawTokens(uint256 amount) external'',
      ''function setMaxTokensPerDay(uint256 _maxTokensPerDay) external'',
      ''function usdcToken() external view returns (address)'',
      ''function owner() external view returns (address)'',
      ''function maxTokensPerDay() external view returns (uint256)'']"

definition TOKEN_ABI :: "string list" where
  "TOKEN_ABI =
     [''function balanceOf(address) view returns (uint256)'',
      ''function decimals() view returns (uint8)'']"

definition EXPECTED_USDC :: string where
  \<comment> \<open>the literal of lines 97 and 100\<close>
  "EXPECTED_USDC = ''0x1904f0522FC7f10517175Bd0E546430f1CF0B9Fa''"

definition MISMATCH_MESSAGE :: string where
  \<comment> \<open>the text of line 101; its first six bytes are the warning sign in UTF-8\<close>
  "MISMATCH_MESSAGE =
     [CHR 0xE2, CHR 0x9A, CHR 0xA0, CHR 0xEF, CHR 0xB8, CHR 0x8F] @
     '' CRITICAL: USDC addresses don'' @ [CHR 0x27] @
     ''t match! Faucet is using wrong token.''"

subsection \<open>Calls on a contract handle\<close>

definition contract_requestTokens :: "env \<Rightarrow> contract \<Rightarrow> int \<Rightarrow> tx io" where
  \<comment> \<open>\<open>contract.requestTokens(amountInWei)\<close>: ethers encodes the argument as a
      \<open>uint256\<close> before anything is sent, and refuses a value out of its range\<close>
  "contract_requestTokens e c amountInWei =
     (if amountInWei < 0 \<or> 2 ^ 256 \<le> amountInWei
      then throw (INVALID_ARGUMENT ''value out-of-bounds'')
      else request (Call (target c) ''requestTokens'' [Uint amountInWei])
             (requestTokens_result e (word_of_int amountInWei)))"

definition tx_wait :: "env \<Rightarrow> tx \<Rightarrow> unit io" where
  "tx_wait e t = request (wait (hash t)) (wait_result e t)"

text \<open>
  A contract method of ethers resolves every argument of type \<open>address\<close> before the
  call is encoded and sent (ethers v6, \<open>resolveAddress\<close> of \<open>address/checks.ts\<close> and
  \<open>getAddress\<close> of \<open>address/address.ts\<close>). This code is the library's, not the
  repository's; \<open>getRemainingAllowance\<close> goes through it with \<open>accounts[0]\<close>.
\<close>

definition is_hex :: "char \<Rightarrow> bool" where
  \<comment> \<open>the character class \<open>[0-9a-fA-F]\<close>\<close>
  "is_hex c = (c \<in> set ''0123456789abcdefABCDEF'')"

definition hex_address :: "string \<Rightarrow> bool" where
  \<comment> \<open>\<open>/^0x[0-9a-f]{40}$/i\<close>\<close>
  "hex_address a =
     (length a = 42 \<and> (take 2 a = ''0x'' \<or> take 2 a = ''0X'') \<and> list_all is_hex (drop 2 a))"

definition mixed_case :: "string \<Rightarrow> bool" where
  \<comment> \<open>\<open>/([A-F].*[a-f])|([a-f].*[A-F])/\<close>\<close>
  "mixed_case a = (list_ex (\<lambda>c. c \<in> set ''ABCDEF'') a \<and> list_ex (\<lambda>c. c \<in> set ''abcdef'') a)"

fun capitalise :: "(nat \<Rightarrow> bool) \<Rightarrow> nat \<Rightarrow> string \<Rightarrow> string" where
  \<comment> \<open>the loop of \<open>getChecksumAddress\<close>: character \<open>i\<close> becomes a capital when digit
      \<open>i\<close> of the hash is 8 or more\<close>
  "capitalise high i [] = []"
| "capitalise high i (c # chars) =
     (if high i then toUpperCase [c] else [c]) @ capitalise high (i + 1) chars"

definition getChecksumAddress :: "env \<Rightarrow> string \<Rightarrow> string" where
  \<comment> \<open>ethers' \<open>getChecksumAddress\<close>: the address in lower case, the characters after
      \<open>0x\<close> hashed, and each of them capitalised as the hash says\<close>
  "getChecksumAddress e address =
     (let chars = drop 2 (toLowerCase address)
      in ''0x'' @ capitalise (keccak256_high e chars) 0 chars)"

definition accepted_address :: "env \<Rightarrow> string \<Rightarrow> bool" where
  \<comment> \<open>the texts ethers takes as an address without a name lookup: \<open>0x\<close> and 40 hex
      digits, in one case or with the checksum's capitals\<close>
  "accepted_address e a =
     (hex_address a \<and> take 2 a = ''0x'' \<and> (mixed_case a \<longrightarrow> getChecksumAddress e a = a))"

definition resolveAddress :: "env \<Rightarrow> string option \<Rightarrow> string io" where
  \<comment> \<open>ethers' \<open>resolveAddress(value, resolver)\<close> on an argument of type \<open>address\<close>:
      \<open>None\<close> is \<open>undefined\<close>. A text of the hexadecimal form goes through
      \<open>getAddress\<close>, which wants the prefix \<open>0x\<close> and, for a text of mixed case, the
      capitals of the checksum, and returns the checksummed spelling. Any other text
      is taken for a name and looked up through the provider.\<close>
  "resolveAddress e value =
     (case value of
        None \<Rightarrow> throw (INVALID_ARGUMENT ''unsupported addressable value'')
      | Some a \<Rightarrow>
          if hex_address a
          then if take 2 a \<noteq> ''0x'' then throw (INVALID_ARGUMENT ''invalid address'')
               else if mixed_case a \<and> getChecksumAddress e a \<noteq> a
               then throw (INVALID_ARGUMENT ''bad address checksum'')
               else ok (getChecksumAddress e a)
          else request (resolveName a) (resolveName_result e a))"

definition contract_getRemainingAllowance :: "env \<Rightarrow> contract \<Rightarrow> string option \<Rightarrow> 256 word io" where
  \<comment> \<open>\<open>contract.getRemainingAllowance(userAddress)\<close>: ethers resolves the argument to
      an address before anything is sent to the contract\<close>
  "contract_getRemainingAllowance e c userAddress =
     await (resolveAddress e userAddress) (\<lambda>address.
     request (Call (target c) ''getRemainingAllowance'' [Addr address])
       (getRemainingAllowance_result e address))"

definition contract_usdcToken :: "env \<Rightarrow> contract \<Rightarrow> string io" where
  "contract_usdcToken e c = request (Call (target c) ''usdcToken'' []) (usdcToken_result e)"

definition contract_getFaucetBalance :: "env \<Rightarrow> contract \<Rightarrow> 256 word io" where
  "contract_getFaucetBalance e c =
     request (Call (target c) ''getFaucetBalance'' []) (getFaucetBalance_result e)"

definition contract_timeUntilNextAutoMint :: "env \<Rightarrow> contract \<Rightarrow> 256 word io" where
  "contract_timeUntilNextAutoMint e c =
     request (Call (target c) ''timeUntilNextAutoMint'' []) (timeUntilNextAutoMint_result e)"

definition contract_decimals :: "env \<Rightarrow> contract \<Rightarrow> 8 word io" where
  "contract_decimals e c = request (Call (target c) ''decimals'' []) (decimals_result e (target c))"

definition contract_balanceOf :: "env \<Rightarrow> contract \<Rightarrow> string \<Rightarrow> 256 word io" where
  \<comment> \<open>the only holder the module asks for is its constant \<open>FAUCET_ADDRESS\<close>, which is
      spelled with the capitals of its checksum: address resolution returns it as it is\<close>
  "contract_balanceOf e c holder =
     request (Call (target c) ''balanceOf'' [Addr holder]) (balanceOf_result e (target c) holder)"

subsection \<open>The module's functions\<close>

definition getFaucetContract_at :: "string option \<Rightarrow> env \<Rightarrow> contract io" where
  \<comment> \<open>\<open>getFaucetContract\<close> (lines 29-47) with the module constant \<open>FAUCET_ADDRESS\<close> as
      a parameter: \<open>None\<close> is an unset (\<open>undefined\<close>) address, and \<open>!FAUCET_ADDRESS\<close>
      holds for it and for the empty string\<close>
  "getFaucetContract_at address e =
     (if \<not> window_ethereum e then throw (Error ''MetaMask not detected'')
      else
        try_catch
          (await (request getSigner (signer_result e)) (\<lambda>signer.
             case address of
               None \<Rightarrow> throw (Error ''Faucet contract address is undefined'')
             | Some a \<Rightarrow>
                 if a = [] then throw (Error ''Faucet contract address is undefined'')
                 else ok \<lparr>target = a, abi = FAUCET_ABI, runner = Signer signer\<rparr>))
          (\<lambda>error.
             seq (print_error [Txt ''Failed to get faucet contract:'', Err error])
                 (throw error)))"

definition getFaucetContract :: "env \<Rightarrow> contract io" where
  "getFaucetContract e = getFaucetContract_at (Some FAUCET_ADDRESS) e"

definition amountInWei :: "jsvalue \<Rightarrow> error + int" where
  \<comment> \<open>line 56: \<open>ethers.parseUnits(amount.toString(), 6)\<close>\<close>
  "amountInWei amount =
     (case toString amount of
        Inl error \<Rightarrow> Inl error
      | Inr text \<Rightarrow> parseUnits text 6)"

definition requestTokens_try :: "jsvalue \<Rightarrow> env \<Rightarrow> tx io" where
  \<comment> \<open>the \<open>try\<close> block of \<open>requestTokens\<close> (lines 54-63)\<close>
  "requestTokens_try amount e =
     await (getFaucetContract e) (\<lambda>contract.
     seq (print_log [Txt (''Requesting '' @ ToString amount @ '' USDC from faucet'')])
     (await (lift (amountInWei amount)) (\<lambda>wei.
      await (contract_requestTokens e contract wei) (\<lambda>tx.
      seq (print_log [Txt ''Transaction sent:'', Txt (hash tx)])
      (await (tx_wait e tx) (\<lambda>_.
       seq (print_log [Txt ''Successfully received tokens from faucet''])
       (ok tx)))))))"

definition requestTokens :: "jsvalue \<Rightarrow> env \<Rightarrow> tx io" where
  \<comment> \<open>lines 50-68\<close>
  "requestTokens amount e =
     (if \<not> truthy amount then throw (Error ''Amount is required'')
      else
        try_catch (requestTokens_try amount e)
          (\<lambda>error.
             seq (print_error [Txt ''Faucet request failed:'', Err error])
                 (throw error)))"

definition getRemainingAllowance_try :: "env \<Rightarrow> string io" where
  \<comment> \<open>the \<open>try\<close> block of \<open>getRemainingAllowance\<close> (lines 73-81); \<open>accounts[0]\<close> of an
      empty array is \<open>undefined\<close>\<close>
  "getRemainingAllowance_try e =
     await (getFaucetContract e) (\<lambda>contract.
     await (request eth_requestAccounts (accounts_result e)) (\<lambda>accounts.
     let userAddress = (case accounts of [] \<Rightarrow> None | a # _ \<Rightarrow> Some a) in
     seq (print_log [Txt ''Getting allowance for:'',
               (case userAddress of None \<Rightarrow> Raw Undefined | Some a \<Rightarrow> Txt a)])
     (await (contract_getRemainingAllowance e contract userAddress) (\<lambda>remainingWei.
      await (lift (formatUnits (uint remainingWei) 6)) (\<lambda>formatted.
      seq (print_log [Txt ''Remaining allowance:'', Txt formatted])
      (ok formatted))))))"

definition getRemainingAllowance :: "env \<Rightarrow> string io" where
  \<comment> \<open>lines 71-86\<close>
  "getRemainingAllowance e =
     try_catch (getRemainingAllowance_try e)
       (\<lambda>error.
          seq (print_error [Txt ''Failed to get remaining allowance:'', Err error])
              (throw error))"

definition getFaucetBalance_try :: "env \<Rightarrow> string io" where
  \<comment> \<open>the \<open>try\<close> block of \<open>getFaucetBalance\<close> (lines 91-127)\<close>
  "getFaucetBalance_try e =
     seq (print_log [Txt ''Getting faucet balance...''])
     (await (getFaucetContract e) (\<lambda>contract.
      await (contract_usdcToken e contract) (\<lambda>tokenAddress.
      seq (print_log [Txt ''USDC token address from faucet:'', Txt tokenAddress])
      (seq (print_log [Txt ''Expected USDC address:'', Txt EXPECTED_USDC])
      (seq (if toLowerCase tokenAddress \<noteq> toLowerCase EXPECTED_USDC
            then print_error [Txt MISMATCH_MESSAGE] else ok ())
      (seq (print_log [Txt ''Connected to contract at:'', Txt FAUCET_ADDRESS])
      (await (contract_getFaucetBalance e contract) (\<lambda>balanceWei.
       seq (print_log [Txt ''Raw balance (BigInt):'', Txt (digits (unat balanceWei))])
       (await (lift (formatUnits (uint balanceWei) 6)) (\<lambda>formattedBalance.
        seq (print_log [Txt ''Formatted balance:'', Txt formattedBalance])
        (let usdcContract = \<lparr>target = tokenAddress, abi = TOKEN_ABI, runner = Provider\<rparr> in
         await (contract_decimals e usdcContract) (\<lambda>decimals.
         seq (print_log [Txt ''USDC token decimals:'', Big (uint decimals)])
         (await (contract_balanceOf e usdcContract FAUCET_ADDRESS) (\<lambda>directBalance.
          await (lift (formatUnits (uint directBalance) (unat decimals))) (\<lambda>direct.
          seq (print_log [Txt ''Direct balance check:'', Txt direct])
          (ok formattedBalance))))))))))))))))"

definition getFaucetBalance :: "env \<Rightarrow> string io" where
  \<comment> \<open>lines 89-133\<close>
  "getFaucetBalance e =
     try_catch (getFaucetBalance_try e)
       (\<lambda>error.
          seq (print_error [Txt ''Failed to get faucet balance:'', Err error])
          (seq (print_error [Txt ''Error details:'', Txt (message error)])
          (ok ''0'')))"

record time_info =
  timeInSeconds :: string
  formatted :: string
  isAvailableNow :: bool

definition time_breakdown :: "env \<Rightarrow> nat \<Rightarrow> string" where
  \<comment> \<open>lines 182-189. Up to \<open>2^53\<close> the conversion \<open>Number(timeInSeconds)\<close> is exact
      and so are \<open>Math.floor\<close> of the quotients and the remainders\<close>
  "time_breakdown e t =
     (if t \<le> 2 ^ 53
      then
        let days = t div 86400;
            hours = (t mod 86400) div 3600;
            minutes = (t mod 3600) div 60
        in digits days @ '' days, '' @ digits hours @ '' hours, '' @ digits minutes @ '' minutes''
      else double_breakdown e t)"

definition getTimeUntilNextAutoMint_try :: "env \<Rightarrow> time_info io" where
  \<comment> \<open>the \<open>try\<close> block of \<open>getTimeUntilNextAutoMint\<close> (lines 175-196)\<close>
  "getTimeUntilNextAutoMint_try e =
     await (getFaucetContract e) (\<lambda>contract.
     seq (print_log [Txt ''Checking time until next auto-mint...''])
     (await (contract_timeUntilNextAutoMint e contract) (\<lambda>seconds.
      seq (print_log [Txt ''Time until next auto-mint (seconds):'', Txt (digits (unat seconds))])
      (let text = time_breakdown e (unat seconds) in
       seq (print_log [Txt ''Formatted time:'', Txt text])
       (ok \<lparr>timeInSeconds = digits (unat seconds),
            formatted = text,
            isAvailableNow = (digits (unat seconds) = ''0'')\<rparr>)))))"

definition getTimeUntilNextAutoMint :: "env \<Rightarrow> time_info io" where
  \<comment> \<open>lines 173-205\<close>
  "getTimeUntilNextAutoMint e =
     try_catch (getTimeUntilNextAutoMint_try e)
       (\<lambda>error.
          seq (print_error [Txt ''Failed to get time until next auto-mint:'', Err error])
          (ok \<lparr>timeInSeconds = ''0'', formatted = ''Error'', isAvailableNow = False\<rparr>))"

subsection \<open>Two concrete environments\<close>

definition ACCOUNT_A :: string where
  \<comment> \<open>an account as the wallet returns it, in lower case\<close>
  "ACCOUNT_A = ''0xaaaaaaaaaaaaaaaaaaaaaaaaaaaaaaaaaaaaaaaa''"

definition ACCOUNT_A_CHECKSUMMED :: string where
  \<comment> \<open>the same account in its checksummed spelling\<close>
  "ACCOUNT_A_CHECKSUMMED = ''0xaAaAaAaaAaAaAaaAaAAAAAAAAaaaAaAaAaaAaaAa''"

definition ACCOUNT_B :: string where
  "ACCOUNT_B = ''0xbbbbbbbbbbbbbbbbbbbbbbbbbbbbbbbbbbbbbbbb''"

definition ACCOUNT_B_CHECKSUMMED :: string where
  "ACCOUNT_B_CHECKSUMMED = ''0xbBbBBBBbbBBBbbbBbbBbbbbBBbBbbbbBbBbbBBbB''"

definition env_ok :: env where
  \<comment> \<open>a connected wallet and a faucet that answers every call\<close>
  "env_ok =
     \<lparr>window_ethereum = True,
      signer_result = Inr ACCOUNT_A_CHECKSUMMED,
      accounts_result = Inr [ACCOUNT_A, ACCOUNT_B],
      requestTokens_result = (\<lambda>_. Inr \<lparr>hash = ''0x01''\<rparr>),
      wait_result = (\<lambda>_. Inr ()),
      getRemainingAllowance_result =
        (\<lambda>a. if a = ACCOUNT_A_CHECKSUMMED then Inr 1500000 else Inr 0),
      usdcToken_result = Inr ''0x1904F0522FC7F10517175BD0E546430F1CF0B9FA'',
      getFaucetBalance_result = Inr 2500000,
      timeUntilNextAutoMint_result = Inr 90061,
      decimals_result = (\<lambda>_. Inr 6),
      balanceOf_result = (\<lambda>_ _. Inr 2500000),
      double_breakdown = (\<lambda>_. []),
      keccak256_high =
        (\<lambda>chars i.
           if chars = drop 2 ACCOUNT_A
           then i \<in> set [1, 3, 5, 8, 10, 12, 15, 17, 18, 19, 20, 21, 22, 23, 24, 28, 30, 32, 35, 38]
           else if chars = drop 2 ACCOUNT_B
           then i \<in> set [1, 3, 4, 5, 6, 9, 10, 11, 15, 18, 23, 24, 26, 31, 33, 36, 37, 39]
           else False),
      resolveName_result = (\<lambda>_. Inl (Rejected ''network does not support ENS''))\<rparr>"

definition env_rejected :: env where
  \<comment> \<open>the wallet is present and the user refuses the connection\<close>
  "env_rejected = env_ok\<lparr>signer_result := Inl (Rejected ''User rejected the request.'')\<rparr>"

definition env_drift :: env where
  \<comment> \<open>the faucet reports another token, one with 2 decimals\<close>
  "env_drift = env_ok\<lparr>usdcToken_result := Inr ''0xdead'', decimals_result := (\<lambda>_. Inr 2)\<rparr>"


section \<open>Facts about the digit strings\<close>

lemma digit_cases: "d < 10 \<Longrightarrow> d \<in> {0, 1, 2, 3, 4, 5, 6, 7, 8, (9::nat)}"
  by auto

lemma digit_val_digit_char: "d < 10 \<Longrightarrow> digit_val (digit_char d) = d"
  by (drule digit_cases) (auto simp: digit_char_def digit_val_def)

lemma is_digit_digit_char: "d < 10 \<Longrightarrow> is_digit (digit_char d)"
  by (drule digit_cases) (auto simp: digit_char_def is_digit_def)

lemma digit_char_eq_0: "d < 10 \<Longrightarrow> digit_char d = CHR ''0'' \<longleftrightarrow> d = 0"
  by (drule digit_cases) (auto simp: digit_char_def)

lemma nat_of_digits_Nil: "nat_of_digits [] = 0"
  by (simp add: nat_of_digits_def)

lemma nat_of_digits_snoc: "nat_of_digits (xs @ [c]) = 10 * nat_of_digits xs + digit_val c"
  by (simp add: nat_of_digits_def)

lemma nat_of_digits_append:
  "nat_of_digits (xs @ ys) = nat_of_digits xs * 10 ^ length ys + nat_of_digits ys"
proof (induction ys rule: rev_induct)
  case Nil
  then show ?case by (simp add: nat_of_digits_Nil)
next
  case (snoc y ys)
  have "nat_of_digits (xs @ ys @ [y]) = 10 * nat_of_digits (xs @ ys) + digit_val y"
    using nat_of_digits_snoc [of "xs @ ys" y] by simp
  with snoc show ?case
    by (simp add: nat_of_digits_snoc algebra_simps)
qed

lemma nat_of_digits_zeros: "nat_of_digits (replicate k (CHR ''0'')) = 0"
proof (induction k)
  case 0
  then show ?case by (simp add: nat_of_digits_Nil)
next
  case (Suc k)
  have "replicate (Suc k) (CHR ''0'') = replicate k (CHR ''0'') @ ''0''"
    by (simp add: replicate_append_same)
  with Suc show ?case
    by (simp only: nat_of_digits_snoc) (simp add: digit_val_def)
qed

lemma nat_of_digits_digits: "nat_of_digits (digits n) = n"
proof (induction n rule: digits.induct)
  case (1 n)
  show ?case
  proof (cases "n < 10")
    case True
    then show ?thesis
      using nat_of_digits_snoc [of "[]" "digit_char n"]
      by (simp add: digits.simps [of n] digit_val_digit_char nat_of_digits_Nil)
  next
    case False
    with 1 show ?thesis
      by (simp add: digits.simps [of n] nat_of_digits_snoc digit_val_digit_char)
  qed
qed

lemma digits_all_digit: "list_all is_digit (digits n)"
proof (induction n rule: digits.induct)
  case (1 n)
  then show ?case
    by (cases "n < 10") (simp_all add: digits.simps [of n] is_digit_digit_char)
qed

lemma digits_not_Nil: "digits n \<noteq> []"
  by (cases "n < 10") (simp_all add: digits.simps [of n])

lemma digits_eq_zero: "digits n = ''0'' \<longleftrightarrow> n = 0"
proof (cases "n < 10")
  case True
  then show ?thesis by (simp add: digits.simps [of n] digit_char_eq_0)
next
  case False
  then show ?thesis
    using digits_not_Nil [of "n div 10"]
    by (cases "digits (n div 10)") (auto simp add: digits.simps [of n])
qed

section \<open>Facts about the unit conversions\<close>

lemma is_digit_not_point: "is_digit c \<Longrightarrow> c \<noteq> CHR ''.''"
  by (auto simp: is_digit_def)

lemma is_digit_not_minus: "is_digit c \<Longrightarrow> c \<noteq> CHR ''-''"
  by (auto simp: is_digit_def)

lemma is_digit_zero: "is_digit (CHR ''0'')"
  by (simp add: is_digit_def)

lemma digits_no_point: "list_all is_digit w \<Longrightarrow> CHR ''.'' \<notin> set w"
  by (auto simp: list_all_iff dest: is_digit_not_point)

lemma nat_of_digits_zeros_append:
  "nat_of_digits (replicate k (CHR ''0'') @ s) = nat_of_digits s"
  by (simp add: nat_of_digits_append nat_of_digits_zeros)

lemma nat_of_digits_append_zeros:
  "nat_of_digits (s @ replicate k (CHR ''0'')) = nat_of_digits s * 10 ^ k"
  by (simp add: nat_of_digits_append nat_of_digits_zeros)

lemma Zeros_replicate: "Zeros = replicate 4 (CHR ''0'')"
  by (simp add: Zeros_def numeral_eq_Suc)

lemma pad_whole_shape:
  "\<exists>k. pad_whole d s = replicate k (CHR ''0'') @ s \<and> d < length (pad_whole d s)"
proof (induction d s rule: pad_whole.induct)
  case (1 d s)
  show ?case
  proof (cases "length s \<le> d")
    case True
    with 1 obtain k where
      k: "pad_whole d (Zeros @ s) = replicate k (CHR ''0'') @ Zeros @ s"
        "d < length (pad_whole d (Zeros @ s))"
      by blast
    have "replicate k (CHR ''0'') @ Zeros @ s = replicate (k + 4) (CHR ''0'') @ s"
      by (simp add: Zeros_replicate replicate_add)
    with k True show ?thesis
      by (subst (1 2) pad_whole.simps) auto
  next
    case False
    then have "pad_whole d s = replicate 0 (CHR ''0'') @ s \<and> d < length (pad_whole d s)"
      by (subst (1 2) pad_whole.simps) simp
    then show ?thesis by blast
  qed
qed


lemma pad_decimal_long: "d \<le> length s \<Longrightarrow> pad_decimal d s = s"
  by (subst pad_decimal.simps) simp

lemma trim_whole_shape:
  "w \<noteq> [] \<Longrightarrow> CHR ''.'' \<notin> set w \<Longrightarrow>
   \<exists>k w'. w = replicate k (CHR ''0'') @ w' \<and> w' \<noteq> [] \<and>
          trim_whole (w @ CHR ''.'' # r) = w' @ CHR ''.'' # r"
proof (induction w rule: list_nonempty_induct)
  case (single c)
  have "[c] = replicate 0 (CHR ''0'') @ [c] \<and> [c] \<noteq> [] \<and>
        trim_whole ([c] @ CHR ''.'' # r) = [c] @ CHR ''.'' # r"
    by simp
  then show ?case by blast
next
  case (cons c w)
  from cons.prems have nw: "CHR ''.'' \<notin> set w"
    by simp
  from cons.IH [OF nw] obtain k w' where
    IH: "w = replicate k (CHR ''0'') @ w'" "w' \<noteq> []"
      "trim_whole (w @ CHR ''.'' # r) = w' @ CHR ''.'' # r"
    by blast
  from cons.hyps nw obtain c' w2 where w: "w = c' # w2" "c' \<noteq> CHR ''.''"
    by (cases w) auto
  show ?case
  proof (cases "c = CHR ''0''")
    case True
    have "trim_whole ((c # w) @ CHR ''.'' # r) = trim_whole (w @ CHR ''.'' # r)"
      using True w by simp
    with IH True have "c # w = replicate (Suc k) (CHR ''0'') @ w' \<and> w' \<noteq> [] \<and>
        trim_whole ((c # w) @ CHR ''.'' # r) = w' @ CHR ''.'' # r"
      by simp
    then show ?thesis by blast
  next
    case False
    with w have "c # w = replicate 0 (CHR ''0'') @ (c # w) \<and> c # w \<noteq> [] \<and>
        trim_whole ((c # w) @ CHR ''.'' # r) = (c # w) @ CHR ''.'' # r"
      by auto
    then show ?thesis by blast
  qed
qed

lemma takeWhile_not_point:
  "CHR ''.'' \<notin> set w \<Longrightarrow> takeWhile (\<lambda>c. c \<noteq> CHR ''.'') (w @ CHR ''.'' # f) = w"
  by (induction w) auto

lemma dropWhile_not_point:
  "CHR ''.'' \<notin> set w \<Longrightarrow>
   dropWhile (\<lambda>c. c \<noteq> CHR ''.'') (w @ CHR ''.'' # f) = CHR ''.'' # f"
  by (induction w) auto

lemma unsigned_text:
  assumes "list_all is_digit w"
  shows "(case w @ r of [] \<Rightarrow> (False, w @ r)
          | c # t \<Rightarrow> if c = CHR ''-'' then (True, t) else (False, w @ r)) = (False, w @ r) \<or>
         (w = [] \<and> r \<noteq> [] \<and> hd r = CHR ''-'')"
  using assms by (cases w; cases r) (auto dest: is_digit_not_minus)

lemma decimal_value_point:
  assumes w: "list_all is_digit w" and f: "list_all is_digit f" and ne: "w \<noteq> [] \<or> f \<noteq> []"
  shows "decimal_value (w @ CHR ''.'' # f) =
           Some (of_nat (nat_of_digits w) + of_nat (nat_of_digits f) / 10 ^ length f)"
proof -
  have "(case w @ CHR ''.'' # f of [] \<Rightarrow> (False, w @ CHR ''.'' # f)
         | c # t \<Rightarrow> if c = CHR ''-'' then (True, t) else (False, w @ CHR ''.'' # f)) =
        (False, w @ CHR ''.'' # f)"
    using unsigned_text [OF w, of "CHR ''.'' # f"] by auto
  then show ?thesis
    using w f ne
    by (simp add: decimal_value_def Let_def takeWhile_not_point [OF digits_no_point [OF w]]
        dropWhile_not_point [OF digits_no_point [OF w]])
qed


lemma fixed_toString_shape:
  assumes "0 \<le> v" and "0 < d"
  shows "\<exists>w f k. fixed_toString v d = w @ CHR ''.'' # f \<and> list_all is_digit w \<and>
           list_all is_digit f \<and> w \<noteq> [] \<and> f \<noteq> [] \<and> length f + k = d \<and>
           nat v = nat_of_digits w * 10 ^ d + nat_of_digits f * 10 ^ k"
proof -
  define str where "str = digits (nat v)"
  define padded where "padded = pad_whole d str"
  obtain k0 where k0: "padded = replicate k0 (CHR ''0'') @ str" "d < length padded"
    using pad_whole_shape [of d str] unfolding padded_def by blast
  have dig: "list_all is_digit padded"
    using k0(1) digits_all_digit [of "nat v"]
    by (auto simp: str_def list_all_iff is_digit_zero set_replicate_conv_if split: if_splits)
  define index where "index = length padded - d"
  define w0 where "w0 = take index padded"
  define f0 where "f0 = drop index padded"
  have split: "padded = w0 @ f0" and lf: "length f0 = d" and w0: "w0 \<noteq> []"
    using k0(2) by (auto simp: w0_def f0_def index_def)
  have digw: "list_all is_digit w0" and digf: "list_all is_digit f0"
    using dig split by simp_all
  have val: "nat v = nat_of_digits w0 * 10 ^ d + nat_of_digits f0"
  proof -
    have "nat_of_digits padded = nat v"
      by (simp add: k0(1) nat_of_digits_zeros_append str_def nat_of_digits_digits)
    then show ?thesis
      by (simp add: split nat_of_digits_append lf)
  qed
  obtain k1 w where w: "w0 = replicate k1 (CHR ''0'') @ w" "w \<noteq> []"
      "trim_whole (w0 @ CHR ''.'' # f0) = w @ CHR ''.'' # f0"
    using trim_whole_shape [OF w0 digits_no_point [OF digw]] by blast
  have f0ne: "rev f0 \<noteq> []"
    using lf assms(2) by auto
  have "CHR ''.'' \<notin> set (rev f0)"
    using digits_no_point [OF digf] by simp
  from trim_whole_shape [OF f0ne this, of "rev w"]
  obtain k g where g: "rev f0 = replicate k (CHR ''0'') @ g" "g \<noteq> []"
      "trim_whole (rev f0 @ CHR ''.'' # rev w) = g @ CHR ''.'' # rev w"
    by blast
  have f0: "f0 = rev g @ replicate k (CHR ''0'')"
    using g(1) by (metis rev_append rev_replicate rev_rev_ident)
  have res: "fixed_toString v d = w @ CHR ''.'' # rev g"
    using assms w(3) g(3)
    by (simp add: fixed_toString_def Let_def trim_decimal_def str_def [symmetric]
        padded_def [symmetric] index_def [symmetric] w0_def [symmetric] f0_def [symmetric])
  have "list_all is_digit w"
    using digw w(1) by simp
  moreover have "list_all is_digit (rev g)"
    using digf f0 by simp
  moreover have "length (rev g) + k = d"
    using lf f0 by simp
  moreover have "nat v = nat_of_digits w * 10 ^ d + nat_of_digits (rev g) * 10 ^ k"
    using val by (simp add: w(1) f0 nat_of_digits_zeros_append nat_of_digits_append_zeros)
  ultimately have "fixed_toString v d = w @ CHR ''.'' # rev g \<and> list_all is_digit w \<and>
      list_all is_digit (rev g) \<and> w \<noteq> [] \<and> rev g \<noteq> [] \<and> length (rev g) + k = d \<and>
      nat v = nat_of_digits w * 10 ^ d + nat_of_digits (rev g) * 10 ^ k"
    using res w(2) g(2) by simp
  then show ?thesis by blast
qed

lemma decimal_value_fixed_toString:
  assumes "0 \<le> v" and "0 < d"
  shows "decimal_value (fixed_toString v d) = Some (of_int v / 10 ^ d)"
proof -
  from fixed_toString_shape [OF assms] obtain w f k where
    s: "fixed_toString v d = w @ CHR ''.'' # f" "list_all is_digit w" "list_all is_digit f"
      "w \<noteq> []" "length f + k = d"
      "nat v = nat_of_digits w * 10 ^ d + nat_of_digits f * 10 ^ k"
    by blast
  have "(of_int v :: rat) = of_nat (nat v)"
    using assms(1) by simp
  also have "\<dots> = of_nat (nat_of_digits w) * 10 ^ d + of_nat (nat_of_digits f) * 10 ^ k"
    by (simp add: s(6))
  finally have "(of_int v :: rat) / 10 ^ d =
      of_nat (nat_of_digits w) + of_nat (nat_of_digits f) * 10 ^ k / 10 ^ (length f + k)"
    by (simp add: s(5) add_divide_distrib)
  also have "\<dots> = of_nat (nat_of_digits w) + of_nat (nat_of_digits f) / 10 ^ length f"
    by (simp add: power_add)
  finally show ?thesis
    using decimal_value_point [OF s(2) s(3)] s(4) by (simp add: s(1))
qed





















section \<open>Evaluation rules\<close>

lemmas io_defs = ok_def throw_def lift_def request_def print_log_def print_error_def await_def
  seq_def try_catch_def

lemmas eval_defs = digits.simps digit_char_def is_digit_def digit_val_def nat_of_digits_def
  Zeros_def match_decimal_def pad_decimal.simps pad_whole.simps checkValue_def parseUnits_def
  fixed_toString_def formatUnits_def trim_decimal_def Number_toString_def amountInWei_def

section \<open>Facts about the handle, the conversions and try/catch\<close>

lemma checkValue_uint256: "checkValue (uint (w :: 256 word))"
proof -
  have "uint w < 2 ^ 256"
    using uint_lt2p [of w] by simp
  moreover have "(2::int) ^ 256 \<le> 2 ^ 511"
    by (rule power_increasing) simp_all
  moreover have "0 \<le> uint w"
    by simp
  ultimately show ?thesis
    unfolding checkValue_def by linarith
qed

lemma formatUnits_uint256:
  "d \<le> 80 \<Longrightarrow> formatUnits (uint (w :: 256 word)) d = Inr (fixed_toString (uint w) d)"
  by (simp add: formatUnits_def checkValue_uint256)

lemma fst_try_catch_rethrow:
  "fst (try_catch m (\<lambda>err. seq (print_error (a err)) (throw err))) = fst m"
  by (auto simp: io_defs split: prod.splits sum.splits)

lemma fst_try_catch_value:
  "fst (try_catch m (\<lambda>err. seq (print_error (a err)) (ok v))) =
     Inr (case fst m of Inl err \<Rightarrow> v | Inr x \<Rightarrow> x)"
  by (auto simp: io_defs split: prod.splits sum.splits)

lemma getFaucetContract_absent:
  "\<not> window_ethereum e \<Longrightarrow> getFaucetContract_at a e = (Inl ProviderUnavailable, [])"
  by (simp add: getFaucetContract_at_def ProviderUnavailable_def throw_def)

lemma getFaucetContract_signer_error:
  "window_ethereum e \<Longrightarrow> signer_result e = Inl err \<Longrightarrow>
   getFaucetContract_at a e =
     (Inl err, [Request getSigner, console_error [Txt ''Failed to get faucet contract:'', Err err]])"
  by (simp add: getFaucetContract_at_def io_defs)

lemma getFaucetContract_ok:
  "window_ethereum e \<Longrightarrow> signer_result e = Inr s \<Longrightarrow>
   getFaucetContract e =
     (Inr \<lparr>target = FAUCET_ADDRESS, abi = FAUCET_ABI, runner = Signer s\<rparr>, [Request getSigner])"
  by (simp add: getFaucetContract_def getFaucetContract_at_def io_defs FAUCET_ADDRESS_def)

section \<open>Facts about address resolution\<close>

lemma toLowerCase_cases:
  "toLowerCase [c] = [c] \<or>
   (\<exists>l \<in> set ''abcdefghijklmnopqrstuvwxyz''. toLowerCase [c] = [l] \<and> toLowerCase [l] = [l])"
  by (simp add: toLowerCase_def)

lemma toUpperCase_cases:
  "toUpperCase [c] = [c] \<or> (\<exists>u. toUpperCase [c] = [u] \<and> toLowerCase [u] = [c])"
  by (simp add: toLowerCase_def toUpperCase_def)

lemma toLowerCase_twice: "toLowerCase (toLowerCase [c]) = toLowerCase [c]"
proof -
  from toLowerCase_cases [of c] show ?thesis
  proof
    assume "toLowerCase [c] = [c]"
    then show ?thesis
      by (simp only:)
  next
    assume "\<exists>l \<in> set ''abcdefghijklmnopqrstuvwxyz''.
      toLowerCase [c] = [l] \<and> toLowerCase [l] = [l]"
    then obtain l where "toLowerCase [c] = [l]" "toLowerCase [l] = [l]"
      by blast
    then show ?thesis
      by (simp only:)
  qed
qed

lemma toLowerCase_toUpperCase:
  assumes "toLowerCase [c] = [l]"
  shows "toLowerCase (toUpperCase [l]) = [l]"
proof -
  have fixed: "toLowerCase [l] = [l]"
    using toLowerCase_twice [of c] by (simp only: assms)
  from toUpperCase_cases [of l] show ?thesis
  proof
    assume "toUpperCase [l] = [l]"
    then show ?thesis
      using fixed by (simp only:)
  next
    assume "\<exists>u. toUpperCase [l] = [u] \<and> toLowerCase [u] = [l]"
    then obtain u where "toUpperCase [l] = [u]" "toLowerCase [u] = [l]"
      by blast
    then show ?thesis
      by (simp only:)
  qed
qed

lemma toLowerCase_append: "toLowerCase (s @ t) = toLowerCase s @ toLowerCase t"
  by (simp add: toLowerCase_def)

lemma toLowerCase_capitalise:
  "toLowerCase (capitalise high i (toLowerCase chars)) = toLowerCase chars"
proof (induction chars arbitrary: i)
  case Nil
  show ?case by (simp add: toLowerCase_def)
next
  case (Cons c chars)
  obtain l where l: "toLowerCase [c] = [l]"
    by (simp add: toLowerCase_def)
  have u: "toLowerCase (toUpperCase [l]) = [l]" "toLowerCase [l] = [l]"
    using toLowerCase_toUpperCase [OF l] toLowerCase_twice [of c] by (simp_all only: l)
  have split: "toLowerCase (c # chars) = [l] @ toLowerCase chars"
    using toLowerCase_append [of "[c]" chars] by (simp only: l append_Cons append_Nil)
  then have "capitalise high i (toLowerCase (c # chars)) =
      (if high i then toUpperCase [l] else [l]) @ capitalise high (i + 1) (toLowerCase chars)"
    by simp
  then have "toLowerCase (capitalise high i (toLowerCase (c # chars))) =
      toLowerCase (if high i then toUpperCase [l] else [l]) @
      toLowerCase (capitalise high (i + 1) (toLowerCase chars))"
    by (simp only: toLowerCase_append)
  also have "toLowerCase (if high i then toUpperCase [l] else [l]) = [l]"
    using u by (cases "high i") simp_all
  also have "toLowerCase (capitalise high (i + 1) (toLowerCase chars)) = toLowerCase chars"
    by (rule Cons.IH)
  finally show ?case
    by (simp only: split)
qed

lemma toLowerCase_getChecksumAddress:
  assumes "take 2 a = ''0x''"
  shows "toLowerCase (getChecksumAddress e a) = toLowerCase a"
proof -
  have a: "a = ''0x'' @ drop 2 a"
    using assms append_take_drop_id [of 2 a] by simp
  have x: "toLowerCase ''0x'' = ''0x''"
    by (simp add: toLowerCase_def)
  have "toLowerCase a = toLowerCase (''0x'' @ drop 2 a)"
    using a by simp
  then have low: "toLowerCase a = ''0x'' @ toLowerCase (drop 2 a)"
    by (simp only: toLowerCase_append x)
  have d: "drop 2 (toLowerCase a) = toLowerCase (drop 2 a)"
    by (simp add: toLowerCase_def drop_map)
  have "getChecksumAddress e a =
      ''0x'' @ capitalise (keccak256_high e (toLowerCase (drop 2 a))) 0 (toLowerCase (drop 2 a))"
    by (simp only: getChecksumAddress_def Let_def d)
  then have "toLowerCase (getChecksumAddress e a) = ''0x'' @ toLowerCase (drop 2 a)"
    by (simp only: toLowerCase_append x toLowerCase_capitalise)
  with low show ?thesis
    by simp
qed

lemma resolveAddress_accepted:
  "accepted_address e a \<Longrightarrow> resolveAddress e (Some a) = (Inr (getChecksumAddress e a), [])"
  by (auto simp: accepted_address_def resolveAddress_def ok_def)

lemma getRemainingAllowance_try_accepted:
  assumes "window_ethereum e" and "signer_result e = Inr s"
    and "accounts_result e = Inr (a # rest)" and "accepted_address e a"
  shows "getRemainingAllowance_try e =
     (case getRemainingAllowance_result e (getChecksumAddress e a) of
        Inl err \<Rightarrow>
          (Inl err,
           [Request getSigner,
            Request eth_requestAccounts,
            console_log [Txt ''Getting allowance for:'', Txt a],
            Request (Call FAUCET_ADDRESS ''getRemainingAllowance''
                       [Addr (getChecksumAddress e a)])])
      | Inr n \<Rightarrow>
          (Inr (fixed_toString (uint n) 6),
           [Request getSigner,
            Request eth_requestAccounts,
            console_log [Txt ''Getting allowance for:'', Txt a],
            Request (Call FAUCET_ADDRESS ''getRemainingAllowance''
                       [Addr (getChecksumAddress e a)]),
            console_log [Txt ''Remaining allowance:'', Txt (fixed_toString (uint n) 6)]]))"
  using assms
  by (simp add: getRemainingAllowance_try_def getFaucetContract_ok io_defs Let_def
      contract_getRemainingAllowance_def resolveAddress_accepted formatUnits_uint256
      split: sum.splits)

section \<open>requestTokens: the amount guard\<close>

text \<open>
  Claim C1, as the code has it. The guard of line 51 is \<open>if (!amount)\<close>: it throws
  \<open>Error("Amount is required")\<close> (the spec's InvalidAmount) exactly for a falsy amount,
  that is \<open>undefined\<close>, \<open>null\<close>, zero, \<open>NaN\<close> or the empty string. For such an
  amount \<open>requestTokens\<close> fails with InvalidAmount and its trace is empty: no provider
  request and no console call precedes the failure.
\<close>

theorem requestTokens_falsy_amount:
  "\<not> truthy amount \<Longrightarrow> requestTokens amount e = (Inl InvalidAmount, [])"
  by (simp add: requestTokens_def throw_def InvalidAmount_def)

theorem requestTokens_falsy_amount_witness:
  "\<not> truthy Null \<and> requestTokens Null env_ok = (Inl InvalidAmount, []) \<and>
   \<not> truthy (Number (Finite False 0 0)) \<and>
   requestTokens (Number (Finite False 0 0)) env_ok = (Inl InvalidAmount, [])"
  using requestTokens_falsy_amount [of Null env_ok]
    requestTokens_falsy_amount [of "Number (Finite False 0 0)" env_ok]
  by simp

text \<open>
  Claim C1 as stated also covers negative amounts, and there it fails. A negative
  amount is truthy, so the guard lets it through: \<open>requestTokens(-1)\<close> with a
  connected wallet asks the provider for the signer first and fails only when ethers
  refuses \<open>-1000000\<close> as a \<open>uint256\<close>; the error is not InvalidAmount.
\<close>

theorem requestTokens_negative_amount:
  "requestTokens (Number (Finite True 1 0)) env_ok =
     (Inl (INVALID_ARGUMENT ''value out-of-bounds''),
      [Request getSigner,
       console_log [Txt ''Requesting -1 USDC from faucet''],
       console_error [Txt ''Faucet request failed:'',
                      Err (INVALID_ARGUMENT ''value out-of-bounds'')]])"
  by (simp add: requestTokens_def requestTokens_try_def getFaucetContract_def
      getFaucetContract_at_def env_ok_def io_defs eval_defs contract_requestTokens_def
      FAUCET_ADDRESS_def)

section \<open>getRemainingAllowance: errors propagate\<close>

text \<open>
  Claim C5. The \<open>catch\<close> clause of \<open>getRemainingAllowance\<close> logs the error and throws
  it again, so the function's outcome is the outcome of its \<open>try\<close> block: no fallback
  value is put in its place. In particular a missing wallet, a failed signer request,
  a failed account request and a failed contract call each reach the caller as the
  very error that was raised; so do the errors of the library's address resolution,
  which comes before the contract call: an empty account list, and a first account
  that is a name the provider cannot resolve.
\<close>

theorem getRemainingAllowance_propagates:
  "fst (getRemainingAllowance e) = fst (getRemainingAllowance_try e) \<and>
   (\<not> window_ethereum e \<longrightarrow> fst (getRemainingAllowance e) = Inl ProviderUnavailable) \<and>
   (window_ethereum e \<and> signer_result e = Inl err \<longrightarrow>
      fst (getRemainingAllowance e) = Inl err) \<and>
   (window_ethereum e \<and> signer_result e = Inr s \<and> accounts_result e = Inl err \<longrightarrow>
      fst (getRemainingAllowance e) = Inl err) \<and>
   (window_ethereum e \<and> signer_result e = Inr s \<and> accounts_result e = Inr (a # rest) \<and>
    accepted_address e a \<and> getRemainingAllowance_result e (getChecksumAddress e a) = Inl err \<longrightarrow>
      fst (getRemainingAllowance e) = Inl err) \<and>
   (window_ethereum e \<and> signer_result e = Inr s \<and> accounts_result e = Inr [] \<longrightarrow>
      fst (getRemainingAllowance e) = Inl (INVALID_ARGUMENT ''unsupported addressable value'')) \<and>
   (window_ethereum e \<and> signer_result e = Inr s \<and> accounts_result e = Inr (a # rest) \<and>
    \<not> hex_address a \<and> resolveName_result e a = Inl err \<longrightarrow>
      fst (getRemainingAllowance e) = Inl err)"
proof -
  have same: "fst (getRemainingAllowance e) = fst (getRemainingAllowance_try e)"
    unfolding getRemainingAllowance_def by (rule fst_try_catch_rethrow)
  have absent: "fst (getRemainingAllowance_try e) = Inl ProviderUnavailable"
    if "\<not> window_ethereum e"
    using that
    by (simp add: getRemainingAllowance_try_def getFaucetContract_def
        getFaucetContract_absent await_def)
  have signer: "fst (getRemainingAllowance_try e) = Inl err"
    if "window_ethereum e" "signer_result e = Inl err"
    using that
    by (simp add: getRemainingAllowance_try_def getFaucetContract_def
        getFaucetContract_signer_error await_def)
  have accounts: "fst (getRemainingAllowance_try e) = Inl err"
    if "window_ethereum e" "signer_result e = Inr s" "accounts_result e = Inl err"
    using that
    by (simp add: getRemainingAllowance_try_def getFaucetContract_ok io_defs)
  have call: "fst (getRemainingAllowance_try e) = Inl err"
    if "window_ethereum e" "signer_result e = Inr s" "accounts_result e = Inr (a # rest)"
      "accepted_address e a" "getRemainingAllowance_result e (getChecksumAddress e a) = Inl err"
    using getRemainingAllowance_try_accepted [OF that(1-4)] that(5) by simp
  have none: "fst (getRemainingAllowance_try e) =
      Inl (INVALID_ARGUMENT ''unsupported addressable value'')"
    if "window_ethereum e" "signer_result e = Inr s" "accounts_result e = Inr []"
    using that
    by (simp add: getRemainingAllowance_try_def getFaucetContract_ok io_defs Let_def
        contract_getRemainingAllowance_def resolveAddress_def)
  have name: "fst (getRemainingAllowance_try e) = Inl err"
    if "window_ethereum e" "signer_result e = Inr s" "accounts_result e = Inr (a # rest)"
      "\<not> hex_address a" "resolveName_result e a = Inl err"
    using that
    by (simp add: getRemainingAllowance_try_def getFaucetContract_ok io_defs Let_def
        contract_getRemainingAllowance_def resolveAddress_def)
  show ?thesis
    using same absent signer accounts call none name by simp
qed

theorem getRemainingAllowance_propagates_witness:
  "fst (getRemainingAllowance env_rejected) = Inl (Rejected ''User rejected the request.'')"
proof -
  have "window_ethereum env_rejected \<and>
        signer_result env_rejected = Inl (Rejected ''User rejected the request.'')"
    by (simp add: env_rejected_def env_ok_def)
  then show ?thesis
    using getRemainingAllowance_propagates
      [of env_rejected "Rejected ''User rejected the request.''"]
    by blast
qed

section \<open>getFaucetBalance: errors are masked\<close>

text \<open>
  Claim C4. \<open>getFaucetBalance\<close> never throws: its outcome is always a value, and
  whenever its \<open>try\<close> block fails the value is the sentinel \<open>"0"\<close>. This holds for a
  missing wallet, a failed signer request, a failure of each of the four contract
  calls, and a decoding failure of the direct balance (a token whose \<open>decimals()\<close>
  exceed what \<open>formatUnits\<close> accepts).
\<close>

theorem getFaucetBalance_fails_soft:
  "fst (getFaucetBalance e) =
     Inr (case fst (getFaucetBalance_try e) of Inl err \<Rightarrow> ''0'' | Inr v \<Rightarrow> v) \<and>
   (\<not> window_ethereum e \<longrightarrow> fst (getFaucetBalance e) = Inr ''0'') \<and>
   (window_ethereum e \<and> signer_result e = Inl err \<longrightarrow> fst (getFaucetBalance e) = Inr ''0'') \<and>
   (window_ethereum e \<and> signer_result e = Inr s \<and> usdcToken_result e = Inl err \<longrightarrow>
      fst (getFaucetBalance e) = Inr ''0'') \<and>
   (window_ethereum e \<and> signer_result e = Inr s \<and> usdcToken_result e = Inr tok \<and>
    getFaucetBalance_result e = Inl err \<longrightarrow> fst (getFaucetBalance e) = Inr ''0'') \<and>
   (window_ethereum e \<and> signer_result e = Inr s \<and> usdcToken_result e = Inr tok \<and>
    getFaucetBalance_result e = Inr bal \<and> decimals_result e tok = Inl err \<longrightarrow>
      fst (getFaucetBalance e) = Inr ''0'') \<and>
   (window_ethereum e \<and> signer_result e = Inr s \<and> usdcToken_result e = Inr tok \<and>
    getFaucetBalance_result e = Inr bal \<and> decimals_result e tok = Inr d \<and>
    balanceOf_result e tok FAUCET_ADDRESS = Inl err \<longrightarrow>
      fst (getFaucetBalance e) = Inr ''0'') \<and>
   (window_ethereum e \<and> signer_result e = Inr s \<and> usdcToken_result e = Inr tok \<and>
    getFaucetBalance_result e = Inr bal \<and> decimals_result e tok = Inr d \<and>
    balanceOf_result e tok FAUCET_ADDRESS = Inr direct \<and> 80 < unat d \<longrightarrow>
      fst (getFaucetBalance e) = Inr ''0'')"
proof -
  have soft: "fst (getFaucetBalance e) =
      Inr (case fst (getFaucetBalance_try e) of Inl err \<Rightarrow> ''0'' | Inr v \<Rightarrow> v)"
    unfolding getFaucetBalance_def
    by (auto simp: io_defs split: prod.splits sum.splits)
  have absent: "\<exists>x. fst (getFaucetBalance_try e) = Inl x" if "\<not> window_ethereum e"
    using that
    by (simp add: getFaucetBalance_try_def getFaucetContract_def getFaucetContract_absent io_defs)
  have signer: "\<exists>x. fst (getFaucetBalance_try e) = Inl x"
    if "window_ethereum e" "signer_result e = Inl err"
    using that
    by (simp add: getFaucetBalance_try_def getFaucetContract_def
        getFaucetContract_signer_error io_defs)
  have token: "\<exists>x. fst (getFaucetBalance_try e) = Inl x"
    if "window_ethereum e" "signer_result e = Inr s" "usdcToken_result e = Inl err"
    using that
    by (simp add: getFaucetBalance_try_def getFaucetContract_ok io_defs contract_usdcToken_def)
  have balance: "\<exists>x. fst (getFaucetBalance_try e) = Inl x"
    if "window_ethereum e" "signer_result e = Inr s" "usdcToken_result e = Inr tok"
      "getFaucetBalance_result e = Inl err"
    using that
    by (simp add: getFaucetBalance_try_def getFaucetContract_ok io_defs contract_usdcToken_def
        contract_getFaucetBalance_def)
  have decimals: "\<exists>x. fst (getFaucetBalance_try e) = Inl x"
    if "window_ethereum e" "signer_result e = Inr s" "usdcToken_result e = Inr tok"
      "getFaucetBalance_result e = Inr bal" "decimals_result e tok = Inl err"
    using that
    by (simp add: getFaucetBalance_try_def getFaucetContract_ok io_defs contract_usdcToken_def
        contract_getFaucetBalance_def contract_decimals_def formatUnits_uint256)
  have direct: "\<exists>x. fst (getFaucetBalance_try e) = Inl x"
    if "window_ethereum e" "signer_result e = Inr s" "usdcToken_result e = Inr tok"
      "getFaucetBalance_result e = Inr bal" "decimals_result e tok = Inr d"
      "balanceOf_result e tok FAUCET_ADDRESS = Inl err"
    using that
    by (simp add: getFaucetBalance_try_def getFaucetContract_ok io_defs contract_usdcToken_def
        contract_getFaucetBalance_def contract_decimals_def contract_balanceOf_def
        formatUnits_uint256)
  have decode: "\<exists>x. fst (getFaucetBalance_try e) = Inl x"
    if "window_ethereum e" "signer_result e = Inr s" "usdcToken_result e = Inr tok"
      "getFaucetBalance_result e = Inr bal" "decimals_result e tok = Inr d"
      "balanceOf_result e tok FAUCET_ADDRESS = Inr direct" "80 < unat d"
    using that
    by (simp add: getFaucetBalance_try_def getFaucetContract_ok io_defs contract_usdcToken_def
        contract_getFaucetBalance_def contract_decimals_def contract_balanceOf_def
        formatUnits_uint256 formatUnits_def)
  show ?thesis
    using soft absent signer token balance decimals direct decode
    by (auto split: sum.splits)
qed

theorem getFaucetBalance_fails_soft_witness:
  "fst (getFaucetBalance env_rejected) = Inr ''0''"
proof -
  have "window_ethereum env_rejected \<and>
        signer_result env_rejected = Inl (Rejected ''User rejected the request.'')"
    by (simp add: env_rejected_def env_ok_def)
  then show ?thesis
    using getFaucetBalance_fails_soft
      [of env_rejected "Rejected ''User rejected the request.''"]
    by blast
qed

section \<open>getTimeUntilNextAutoMint\<close>

text \<open>
  Claim C6. \<open>getTimeUntilNextAutoMint\<close> never throws: whenever its \<open>try\<close> block
  fails (no wallet, a failed signer request, a failed contract call) it returns the
  sentinel \<open>{timeInSeconds: "0", formatted: "Error", isAvailableNow: false}\<close>, whose
  duration is zero while \<open>isAvailableNow\<close> is false.
\<close>

theorem getTimeUntilNextAutoMint_fails_soft:
  "fst (getTimeUntilNextAutoMint e) =
     Inr (case fst (getTimeUntilNextAutoMint_try e) of
            Inl err \<Rightarrow> \<lparr>timeInSeconds = ''0'', formatted = ''Error'', isAvailableNow = False\<rparr>
          | Inr r \<Rightarrow> r) \<and>
   (\<not> window_ethereum e \<longrightarrow>
      fst (getTimeUntilNextAutoMint e) =
        Inr \<lparr>timeInSeconds = ''0'', formatted = ''Error'', isAvailableNow = False\<rparr>) \<and>
   (window_ethereum e \<and> signer_result e = Inl err \<longrightarrow>
      fst (getTimeUntilNextAutoMint e) =
        Inr \<lparr>timeInSeconds = ''0'', formatted = ''Error'', isAvailableNow = False\<rparr>) \<and>
   (window_ethereum e \<and> signer_result e = Inr s \<and> timeUntilNextAutoMint_result e = Inl err \<longrightarrow>
      fst (getTimeUntilNextAutoMint e) =
        Inr \<lparr>timeInSeconds = ''0'', formatted = ''Error'', isAvailableNow = False\<rparr>)"
proof -
  have soft: "fst (getTimeUntilNextAutoMint e) =
     Inr (case fst (getTimeUntilNextAutoMint_try e) of
            Inl err \<Rightarrow> \<lparr>timeInSeconds = ''0'', formatted = ''Error'', isAvailableNow = False\<rparr>
          | Inr r \<Rightarrow> r)"
    unfolding getTimeUntilNextAutoMint_def by (rule fst_try_catch_value)
  have absent: "\<exists>x. fst (getTimeUntilNextAutoMint_try e) = Inl x" if "\<not> window_ethereum e"
    using that
    by (simp add: getTimeUntilNextAutoMint_try_def getFaucetContract_def
        getFaucetContract_absent io_defs)
  have signer: "\<exists>x. fst (getTimeUntilNextAutoMint_try e) = Inl x"
    if "window_ethereum e" "signer_result e = Inl err"
    using that
    by (simp add: getTimeUntilNextAutoMint_try_def getFaucetContract_def
        getFaucetContract_signer_error io_defs)
  have call: "\<exists>x. fst (getTimeUntilNextAutoMint_try e) = Inl x"
    if "window_ethereum e" "signer_result e = Inr s" "timeUntilNextAutoMint_result e = Inl err"
    using that
    by (simp add: getTimeUntilNextAutoMint_try_def getFaucetContract_ok io_defs
        contract_timeUntilNextAutoMint_def)
  show ?thesis
    using soft absent signer call by (auto split: sum.splits)
qed

theorem getTimeUntilNextAutoMint_fails_soft_witness:
  "fst (getTimeUntilNextAutoMint env_rejected) =
     Inr \<lparr>timeInSeconds = ''0'', formatted = ''Error'', isAvailableNow = False\<rparr>"
proof -
  have "window_ethereum env_rejected \<and>
        signer_result env_rejected = Inl (Rejected ''User rejected the request.'')"
    by (simp add: env_rejected_def env_ok_def)
  then show ?thesis
    using getTimeUntilNextAutoMint_fails_soft
      [of env_rejected "Rejected ''User rejected the request.''"]
    by blast
qed

text \<open>
  Claim C3. On a successful read of the duration \<open>t\<close> the result's
  \<open>isAvailableNow\<close> is true exactly when \<open>t = 0\<close>, and for \<open>t = 90061\<close> the
  formatted breakdown is \<open>"1 days, 1 hours, 1 minutes"\<close>.
\<close>

theorem getTimeUntilNextAutoMint_success:
  assumes "window_ethereum e" and "signer_result e = Inr s"
    and "timeUntilNextAutoMint_result e = Inr t"
  shows "fst (getTimeUntilNextAutoMint e) =
           Inr \<lparr>timeInSeconds = digits (unat t),
                formatted = time_breakdown e (unat t),
                isAvailableNow = (t = 0)\<rparr> \<and>
         (t = 90061 \<longrightarrow> time_breakdown e (unat t) = ''1 days, 1 hours, 1 minutes'')"
proof -
  have "digits (unat t) = ''0'' \<longleftrightarrow> t = 0"
    by (simp add: digits_eq_zero unat_eq_0)
  then have "fst (getTimeUntilNextAutoMint e) =
           Inr \<lparr>timeInSeconds = digits (unat t),
                formatted = time_breakdown e (unat t),
                isAvailableNow = (t = 0)\<rparr>"
    using assms
    by (simp add: getTimeUntilNextAutoMint_def getTimeUntilNextAutoMint_try_def
        getFaucetContract_ok io_defs contract_timeUntilNextAutoMint_def Let_def)
  moreover have "time_breakdown e (unat (90061 :: 256 word)) = ''1 days, 1 hours, 1 minutes''"
    by (simp add: time_breakdown_def digits.simps digit_char_def)
  ultimately show ?thesis by simp
qed

theorem getTimeUntilNextAutoMint_success_witness:
  "fst (getTimeUntilNextAutoMint env_ok) =
     Inr \<lparr>timeInSeconds = ''90061'', formatted = ''1 days, 1 hours, 1 minutes'',
          isAvailableNow = False\<rparr>"
proof -
  have h: "window_ethereum env_ok" "signer_result env_ok = Inr ACCOUNT_A_CHECKSUMMED"
    "timeUntilNextAutoMint_result env_ok = Inr 90061"
    by (simp_all add: env_ok_def)
  have "digits (unat (90061 :: 256 word)) = ''90061''"
    by (simp add: digits.simps digit_char_def)
  then show ?thesis
    using getTimeUntilNextAutoMint_success [OF h] by simp
qed

section \<open>getFaucetContract\<close>

text \<open>
  Claim C7, as the code has it. Without a wallet provider \<open>getFaucetContract\<close> fails
  with ProviderUnavailable before anything else. With a provider it first awaits the
  signer: an error of that request is thrown on to the caller whatever the address is.
  Once the signer is there, an unset (or empty) address gives ConfigurationError and a
  set address gives the handle made of that address, the faucet ABI and the signer.
\<close>

theorem getFaucetContract_outcomes:
  "(\<not> window_ethereum e \<longrightarrow>
      getFaucetContract_at address e = (Inl ProviderUnavailable, [])) \<and>
   (window_ethereum e \<and> signer_result e = Inl err \<longrightarrow>
      fst (getFaucetContract_at address e) = Inl err) \<and>
   (window_ethereum e \<and> signer_result e = Inr s \<and> (address = None \<or> address = Some []) \<longrightarrow>
      fst (getFaucetContract_at address e) = Inl ConfigurationError) \<and>
   (window_ethereum e \<and> signer_result e = Inr s \<and> address = Some a \<and> a \<noteq> [] \<longrightarrow>
      getFaucetContract_at address e =
        (Inr \<lparr>target = a, abi = FAUCET_ABI, runner = Signer s\<rparr>, [Request getSigner]))"
  by (auto simp: getFaucetContract_at_def io_defs ProviderUnavailable_def ConfigurationError_def)

theorem getFaucetContract_outcomes_witness:
  "getFaucetContract_at (Some FAUCET_ADDRESS) env_ok =
     (Inr \<lparr>target = FAUCET_ADDRESS, abi = FAUCET_ABI, runner = Signer ACCOUNT_A_CHECKSUMMED\<rparr>,
      [Request getSigner]) \<and>
   fst (getFaucetContract_at None env_ok) = Inl ConfigurationError \<and>
   getFaucetContract_at (Some FAUCET_ADDRESS) (env_ok\<lparr>window_ethereum := False\<rparr>) =
     (Inl ProviderUnavailable, [])"
proof -
  have h: "window_ethereum env_ok \<and> signer_result env_ok = Inr ACCOUNT_A_CHECKSUMMED \<and>
           FAUCET_ADDRESS \<noteq> [] \<and> \<not> window_ethereum (env_ok\<lparr>window_ethereum := False\<rparr>)"
    by (simp add: env_ok_def FAUCET_ADDRESS_def)
  show ?thesis
    using h getFaucetContract_outcomes [of env_ok "Some FAUCET_ADDRESS" _ ACCOUNT_A_CHECKSUMMED FAUCET_ADDRESS]
      getFaucetContract_outcomes [of env_ok None _ ACCOUNT_A_CHECKSUMMED]
      getFaucetContract_outcomes [of "env_ok\<lparr>window_ethereum := False\<rparr>" "Some FAUCET_ADDRESS"]
    by blast
qed

text \<open>
  Claim C7 as stated promises a handle whenever a provider is present and the address
  is set, and there it fails. The provider is present and the address is the module's
  constant, and yet no handle is returned: the user refuses the wallet's connection request and the refusal
  reaches the caller.
\<close>

theorem getFaucetContract_signer_rejected:
  "window_ethereum env_rejected \<and>
   getFaucetContract env_rejected =
     (Inl (Rejected ''User rejected the request.''),
      [Request getSigner,
       console_error [Txt ''Failed to get faucet contract:'',
                      Err (Rejected ''User rejected the request.'')]])"
  by (simp add: getFaucetContract_def getFaucetContract_at_def env_rejected_def env_ok_def io_defs)

section \<open>getFaucetBalance: the cross-validation reads\<close>

text \<open>
  Claim C10. Let the wallet be present and the signer, \<open>usdcToken()\<close> and the faucet's
  \<open>getFaucetBalance()\<close> answer. A run is then on the success path when the token's
  \<open>decimals()\<close> and \<open>balanceOf(FAUCET_ADDRESS)\<close> answer too and the decimals are at
  most 80, the most \<open>formatUnits\<close> accepts. Take two such runs that differ only in the
  two cross-validation answers. The \<open>try\<close> block of both reaches its \<open>return\<close>, both
  return \<open>formatUnits\<close> of the faucet's own answer with the fixed 6 decimals, both
  send the same requests, and their traces differ only in the arguments of the two
  \<open>console.log\<close> calls that print the cross-validation answers. For every other pair
  of cross-validation answers the run leaves the success path: the \<open>catch\<close> clause
  returns \<open>"0"\<close>.
\<close>

theorem getFaucetBalance_ignores_cross_validation:
  assumes "window_ethereum e" and "signer_result e = Inr s"
    and "usdcToken_result e = Inr tok" and "getFaucetBalance_result e = Inr bal"
    and "d1 tok = Inr x1" and "unat x1 \<le> 80" and "b1 tok FAUCET_ADDRESS = Inr y1"
    and "d2 tok = Inr x2" and "unat x2 \<le> 80" and "b2 tok FAUCET_ADDRESS = Inr y2"
  shows "fst (getFaucetBalance (e\<lparr>decimals_result := d1, balanceOf_result := b1\<rparr>)) =
           Inr (fixed_toString (uint bal) 6) \<and>
         fst (getFaucetBalance (e\<lparr>decimals_result := d2, balanceOf_result := b2\<rparr>)) =
           Inr (fixed_toString (uint bal) 6) \<and>
         formatUnits (uint bal) 6 = Inr (fixed_toString (uint bal) 6) \<and>
         fst (getFaucetBalance_try (e\<lparr>decimals_result := d1, balanceOf_result := b1\<rparr>)) =
           Inr (fixed_toString (uint bal) 6) \<and>
         fst (getFaucetBalance_try (e\<lparr>decimals_result := d2, balanceOf_result := b2\<rparr>)) =
           Inr (fixed_toString (uint bal) 6) \<and>
         requests (snd (getFaucetBalance (e\<lparr>decimals_result := d1, balanceOf_result := b1\<rparr>))) =
           requests (snd (getFaucetBalance (e\<lparr>decimals_result := d2, balanceOf_result := b2\<rparr>))) \<and>
         (\<exists>common.
            snd (getFaucetBalance (e\<lparr>decimals_result := d1, balanceOf_result := b1\<rparr>)) =
              common @
              [Request (Call tok ''decimals'' []),
               console_log [Txt ''USDC token decimals:'', Big (uint x1)],
               Request (Call tok ''balanceOf'' [Addr FAUCET_ADDRESS]),
               console_log [Txt ''Direct balance check:'',
                            Txt (fixed_toString (uint y1) (unat x1))]] \<and>
            snd (getFaucetBalance (e\<lparr>decimals_result := d2, balanceOf_result := b2\<rparr>)) =
              common @
              [Request (Call tok ''decimals'' []),
               console_log [Txt ''USDC token decimals:'', Big (uint x2)],
               Request (Call tok ''balanceOf'' [Addr FAUCET_ADDRESS]),
               console_log [Txt ''Direct balance check:'',
                            Txt (fixed_toString (uint y2) (unat x2))]]) \<and>
         (\<forall>d b. (\<forall>x y. d tok = Inr x \<and> b tok FAUCET_ADDRESS = Inr y \<longrightarrow> 80 < unat x) \<longrightarrow>
            fst (getFaucetBalance (e\<lparr>decimals_result := d, balanceOf_result := b\<rparr>)) = Inr ''0'')"
proof -
  define common where "common =
      [console_log [Txt ''Getting faucet balance...''],
       Request getSigner,
       Request (Call FAUCET_ADDRESS ''usdcToken'' []),
       console_log [Txt ''USDC token address from faucet:'', Txt tok],
       console_log [Txt ''Expected USDC address:'', Txt EXPECTED_USDC]] @
      (if toLowerCase tok \<noteq> toLowerCase EXPECTED_USDC
       then [console_error [Txt MISMATCH_MESSAGE]] else []) @
      [console_log [Txt ''Connected to contract at:'', Txt FAUCET_ADDRESS],
       Request (Call FAUCET_ADDRESS ''getFaucetBalance'' []),
       console_log [Txt ''Raw balance (BigInt):'', Txt (digits (unat bal))],
       console_log [Txt ''Formatted balance:'', Txt (fixed_toString (uint bal) 6)]]"
  have block: "getFaucetBalance_try (e\<lparr>decimals_result := d, balanceOf_result := b\<rparr>) =
      (Inr (fixed_toString (uint bal) 6),
       common @
       [Request (Call tok ''decimals'' []),
        console_log [Txt ''USDC token decimals:'', Big (uint x)],
        Request (Call tok ''balanceOf'' [Addr FAUCET_ADDRESS]),
        console_log [Txt ''Direct balance check:'', Txt (fixed_toString (uint y) (unat x))]])"
    if "d tok = Inr x" "unat x \<le> 80" "b tok FAUCET_ADDRESS = Inr y" for d b x y
    using assms(1-4) that unfolding common_def
    by (simp add: getFaucetBalance_try_def getFaucetContract_ok io_defs
        Let_def contract_usdcToken_def contract_getFaucetBalance_def contract_decimals_def
        contract_balanceOf_def formatUnits_uint256)
  have run: "getFaucetBalance e' = getFaucetBalance_try e'"
    if "fst (getFaucetBalance_try e') = Inr v" for e' v
    using that unfolding getFaucetBalance_def
    by (auto simp: try_catch_def split: prod.splits sum.splits)
  have soft: "fst (getFaucetBalance e') =
      Inr (case fst (getFaucetBalance_try e') of Inl err \<Rightarrow> ''0'' | Inr v \<Rightarrow> v)" for e'
    unfolding getFaucetBalance_def
    by (auto simp: io_defs split: prod.splits sum.splits)
  have fails: "\<exists>err. fst (getFaucetBalance_try (e\<lparr>decimals_result := d, balanceOf_result := b\<rparr>)) =
      Inl err"
    if "\<forall>x y. d tok = Inr x \<and> b tok FAUCET_ADDRESS = Inr y \<longrightarrow> 80 < unat x" for d b
    using assms(1-4) that
    by (cases "d tok"; cases "b tok FAUCET_ADDRESS")
       (auto simp: getFaucetBalance_try_def getFaucetContract_ok io_defs
         Let_def contract_usdcToken_def contract_getFaucetBalance_def contract_decimals_def
         contract_balanceOf_def formatUnits_uint256 formatUnits_def)
  have 1: "getFaucetBalance_try (e\<lparr>decimals_result := d1, balanceOf_result := b1\<rparr>) =
      (Inr (fixed_toString (uint bal) 6),
       common @
       [Request (Call tok ''decimals'' []),
        console_log [Txt ''USDC token decimals:'', Big (uint x1)],
        Request (Call tok ''balanceOf'' [Addr FAUCET_ADDRESS]),
        console_log [Txt ''Direct balance check:'', Txt (fixed_toString (uint y1) (unat x1))]])"
    by (rule block [where d = d1 and b = b1, OF assms(5-7)])
  have 2: "getFaucetBalance_try (e\<lparr>decimals_result := d2, balanceOf_result := b2\<rparr>) =
      (Inr (fixed_toString (uint bal) 6),
       common @
       [Request (Call tok ''decimals'' []),
        console_log [Txt ''USDC token decimals:'', Big (uint x2)],
        Request (Call tok ''balanceOf'' [Addr FAUCET_ADDRESS]),
        console_log [Txt ''Direct balance check:'', Txt (fixed_toString (uint y2) (unat x2))]])"
    by (rule block [where d = d2 and b = b2, OF assms(8-10)])
  have r1: "getFaucetBalance (e\<lparr>decimals_result := d1, balanceOf_result := b1\<rparr>) =
      getFaucetBalance_try (e\<lparr>decimals_result := d1, balanceOf_result := b1\<rparr>)"
    by (rule run) (simp add: 1)
  have r2: "getFaucetBalance (e\<lparr>decimals_result := d2, balanceOf_result := b2\<rparr>) =
      getFaucetBalance_try (e\<lparr>decimals_result := d2, balanceOf_result := b2\<rparr>)"
    by (rule run) (simp add: 2)
  have req: "requests (t @
        [Request (Call tok ''decimals'' []), console_log u,
         Request (Call tok ''balanceOf'' [Addr FAUCET_ADDRESS]), console_log v]) =
      requests t @ [Call tok ''decimals'' [], Call tok ''balanceOf'' [Addr FAUCET_ADDRESS]]"
    for t u v
    by (induction t rule: requests.induct) simp_all
  have same: "requests (snd (getFaucetBalance (e\<lparr>decimals_result := d1, balanceOf_result := b1\<rparr>))) =
      requests (snd (getFaucetBalance (e\<lparr>decimals_result := d2, balanceOf_result := b2\<rparr>)))"
    by (simp only: r1 r2 1 2 snd_conv req)
  have off: "\<forall>d b. (\<forall>x y. d tok = Inr x \<and> b tok FAUCET_ADDRESS = Inr y \<longrightarrow> 80 < unat x) \<longrightarrow>
      fst (getFaucetBalance (e\<lparr>decimals_result := d, balanceOf_result := b\<rparr>)) = Inr ''0''"
  proof (intro allI impI)
    fix d :: "string \<Rightarrow> error + 8 word" and b :: "string \<Rightarrow> string \<Rightarrow> error + 256 word"
    assume "\<forall>x y. d tok = Inr x \<and> b tok FAUCET_ADDRESS = Inr y \<longrightarrow> 80 < unat x"
    from fails [where d = d and b = b, OF this] obtain err where
      "fst (getFaucetBalance_try (e\<lparr>decimals_result := d, balanceOf_result := b\<rparr>)) = Inl err"
      by blast
    then show "fst (getFaucetBalance (e\<lparr>decimals_result := d, balanceOf_result := b\<rparr>)) = Inr ''0''"
      by (simp add: soft)
  qed
  have fu: "formatUnits (uint bal) 6 = Inr (fixed_toString (uint bal) 6)"
    by (simp add: formatUnits_uint256)
  have traces: "\<exists>common.
      snd (getFaucetBalance (e\<lparr>decimals_result := d1, balanceOf_result := b1\<rparr>)) =
        common @
        [Request (Call tok ''decimals'' []),
         console_log [Txt ''USDC token decimals:'', Big (uint x1)],
         Request (Call tok ''balanceOf'' [Addr FAUCET_ADDRESS]),
         console_log [Txt ''Direct balance check:'',
                      Txt (fixed_toString (uint y1) (unat x1))]] \<and>
      snd (getFaucetBalance (e\<lparr>decimals_result := d2, balanceOf_result := b2\<rparr>)) =
        common @
        [Request (Call tok ''decimals'' []),
         console_log [Txt ''USDC token decimals:'', Big (uint x2)],
         Request (Call tok ''balanceOf'' [Addr FAUCET_ADDRESS]),
         console_log [Txt ''Direct balance check:'',
                      Txt (fixed_toString (uint y2) (unat x2))]]"
    by (rule exI [of _ common]) (simp only: r1 r2 1 2 snd_conv simp_thms)
  have v1: "fst (getFaucetBalance (e\<lparr>decimals_result := d1, balanceOf_result := b1\<rparr>)) =
      Inr (fixed_toString (uint bal) 6)"
    by (simp only: r1 1 fst_conv)
  have v2: "fst (getFaucetBalance (e\<lparr>decimals_result := d2, balanceOf_result := b2\<rparr>)) =
      Inr (fixed_toString (uint bal) 6)"
    by (simp only: r2 2 fst_conv)
  have t1: "fst (getFaucetBalance_try (e\<lparr>decimals_result := d1, balanceOf_result := b1\<rparr>)) =
      Inr (fixed_toString (uint bal) 6)"
    by (simp only: 1 fst_conv)
  have t2: "fst (getFaucetBalance_try (e\<lparr>decimals_result := d2, balanceOf_result := b2\<rparr>)) =
      Inr (fixed_toString (uint bal) 6)"
    by (simp only: 2 fst_conv)
  from v1 v2 fu t1 t2 same traces off show ?thesis
    by (intro conjI)
qed

theorem getFaucetBalance_ignores_cross_validation_witness:
  "fst (getFaucetBalance
          (env_ok\<lparr>decimals_result := (\<lambda>_. Inr 6), balanceOf_result := (\<lambda>_ _. Inr 2500000)\<rparr>)) =
     Inr ''2.5'' \<and>
   fst (getFaucetBalance
          (env_ok\<lparr>decimals_result := (\<lambda>_. Inr 18), balanceOf_result := (\<lambda>_ _. Inr 7)\<rparr>)) =
     Inr ''2.5'' \<and>
   fst (getFaucetBalance
          (env_ok\<lparr>decimals_result := (\<lambda>_. Inr 81), balanceOf_result := (\<lambda>_ _. Inr 7)\<rparr>)) =
     Inr ''0'' \<and>
   requests (snd (getFaucetBalance
          (env_ok\<lparr>decimals_result := (\<lambda>_. Inr 6), balanceOf_result := (\<lambda>_ _. Inr 2500000)\<rparr>))) =
   requests (snd (getFaucetBalance
          (env_ok\<lparr>decimals_result := (\<lambda>_. Inr 18), balanceOf_result := (\<lambda>_ _. Inr 7)\<rparr>)))"
proof -
  have h: "window_ethereum env_ok" "signer_result env_ok = Inr ACCOUNT_A_CHECKSUMMED"
    "usdcToken_result env_ok = Inr ''0x1904F0522FC7F10517175BD0E546430F1CF0B9FA''"
    "getFaucetBalance_result env_ok = Inr 2500000"
    by (simp_all add: env_ok_def)
  have u: "unat (6 :: 8 word) \<le> 80" "unat (18 :: 8 word) \<le> 80"
    by simp_all
  have c: "\<forall>x y. (Inr 81 :: error + 8 word) = Inr x \<and> (Inr 7 :: error + 256 word) = Inr y \<longrightarrow>
      80 < unat x"
    by auto
  note runs = getFaucetBalance_ignores_cross_validation
    [where e = env_ok and tok = "''0x1904F0522FC7F10517175BD0E546430F1CF0B9FA''"
       and ?d1.0 = "\<lambda>_. Inr 6" and ?x1.0 = 6
       and ?b1.0 = "\<lambda>_ _. Inr 2500000" and ?y1.0 = 2500000
       and ?d2.0 = "\<lambda>_. Inr 18" and ?x2.0 = 18
       and ?b2.0 = "\<lambda>_ _. Inr 7" and ?y2.0 = 7,
     OF h refl u(1) refl refl u(2) refl]
  note off = runs [THEN conjunct2, THEN conjunct2, THEN conjunct2, THEN conjunct2,
    THEN conjunct2, THEN conjunct2, THEN conjunct2,
    THEN spec [where x = "\<lambda>_. Inr 81"], THEN spec [where x = "\<lambda>_ _. Inr 7"], THEN mp, OF c]
  have v: "fixed_toString (uint (2500000 :: 256 word)) 6 = ''2.5''"
    by (simp add: eval_defs Let_def)
  show ?thesis
    using runs off unfolding v by blast
qed

section \<open>Scaling an amount and back\<close>




section \<open>getRemainingAllowance: the queried account and the decoding\<close>

text \<open>
  Claim C8. Let the wallet answer and let the first account \<open>a\<close> of the
  \<open>eth_requestAccounts\<close> answer be an address as ethers takes it: \<open>0x\<close> and 40
  hexadecimal digits, in one case or with the capitals of its checksum. Then
  \<open>getRemainingAllowance\<close> makes one contract call, \<open>getRemainingAllowance\<close> on the
  faucet for that first account, whatever the other accounts are: the address sent is
  \<open>a\<close> in its checksummed spelling, equal to \<open>a\<close> up to the case of its digits. When
  the call answers the integer \<open>n\<close>, the function returns \<open>formatUnits\<close> of \<open>n\<close> with
  6 decimals, a decimal text that denotes \<open>n / 10^6\<close>.
\<close>

theorem getRemainingAllowance_first_account:
  assumes "window_ethereum e" and "signer_result e = Inr s"
    and "accounts_result e = Inr (a # rest)"
    and "accepted_address e a"
    and "getRemainingAllowance_result e (getChecksumAddress e a) = Inr n"
  shows "getRemainingAllowance e =
           (Inr (fixed_toString (uint n) 6),
            [Request getSigner,
             Request eth_requestAccounts,
             console_log [Txt ''Getting allowance for:'', Txt a],
             Request (Call FAUCET_ADDRESS ''getRemainingAllowance''
                        [Addr (getChecksumAddress e a)]),
             console_log [Txt ''Remaining allowance:'', Txt (fixed_toString (uint n) 6)]]) \<and>
         toLowerCase (getChecksumAddress e a) = toLowerCase a \<and>
         formatUnits (uint n) 6 = Inr (fixed_toString (uint n) 6) \<and>
         decimal_value (fixed_toString (uint n) 6) = Some (of_int (uint n) / 10 ^ 6)"
proof -
  have fu: "formatUnits (uint n) 6 = Inr (fixed_toString (uint n) 6)"
    by (simp add: formatUnits_uint256)
  have "getRemainingAllowance_try e =
           (Inr (fixed_toString (uint n) 6),
            [Request getSigner,
             Request eth_requestAccounts,
             console_log [Txt ''Getting allowance for:'', Txt a],
             Request (Call FAUCET_ADDRESS ''getRemainingAllowance''
                        [Addr (getChecksumAddress e a)]),
             console_log [Txt ''Remaining allowance:'', Txt (fixed_toString (uint n) 6)]])"
    using getRemainingAllowance_try_accepted [OF assms(1-4)] assms(5) by simp
  then have run: "getRemainingAllowance e =
           (Inr (fixed_toString (uint n) 6),
            [Request getSigner,
             Request eth_requestAccounts,
             console_log [Txt ''Getting allowance for:'', Txt a],
             Request (Call FAUCET_ADDRESS ''getRemainingAllowance''
                        [Addr (getChecksumAddress e a)]),
             console_log [Txt ''Remaining allowance:'', Txt (fixed_toString (uint n) 6)]])"
    by (simp add: getRemainingAllowance_def try_catch_def)
  have "take 2 a = ''0x''"
    using assms(4) by (simp add: accepted_address_def)
  then have low: "toLowerCase (getChecksumAddress e a) = toLowerCase a"
    by (rule toLowerCase_getChecksumAddress)
  have "decimal_value (fixed_toString (uint n) 6) = Some (of_int (uint n) / 10 ^ 6)"
    by (rule decimal_value_fixed_toString) simp_all
  with run low fu show ?thesis
    by (intro conjI)
qed

theorem getRemainingAllowance_first_account_witness:
  "accepted_address env_ok ACCOUNT_A \<and>
   getChecksumAddress env_ok ACCOUNT_A = ACCOUNT_A_CHECKSUMMED \<and>
   getRemainingAllowance env_ok =
     (Inr ''1.5'',
      [Request getSigner,
       Request eth_requestAccounts,
       console_log [Txt ''Getting allowance for:'', Txt ACCOUNT_A],
       Request (Call FAUCET_ADDRESS ''getRemainingAllowance'' [Addr ACCOUNT_A_CHECKSUMMED]),
       console_log [Txt ''Remaining allowance:'', Txt ''1.5'']]) \<and>
   decimal_value ''1.5'' = Some (1500000 / 10 ^ 6)"
proof -
  have sum: "getChecksumAddress env_ok ACCOUNT_A = ACCOUNT_A_CHECKSUMMED"
    by (simp add: getChecksumAddress_def env_ok_def ACCOUNT_A_def ACCOUNT_A_CHECKSUMMED_def
        toLowerCase_def toUpperCase_def Let_def)
  have acc: "accepted_address env_ok ACCOUNT_A"
    by (simp add: accepted_address_def hex_address_def is_hex_def mixed_case_def ACCOUNT_A_def)
  have h: "window_ethereum env_ok" "signer_result env_ok = Inr ACCOUNT_A_CHECKSUMMED"
    "accounts_result env_ok = Inr [ACCOUNT_A, ACCOUNT_B]"
    by (simp_all add: env_ok_def)
  have n: "getRemainingAllowance_result env_ok (getChecksumAddress env_ok ACCOUNT_A) = Inr 1500000"
    unfolding sum by (simp add: env_ok_def)
  have v: "fixed_toString (uint (1500000 :: 256 word)) 6 = ''1.5''"
    by (simp add: eval_defs Let_def)
  show ?thesis
    using getRemainingAllowance_first_account [OF h acc n] acc sum unfolding v sum by simp
qed

section \<open>getFaucetBalance: the token address check and the direct balance read\<close>

text \<open>
  Claim C9. On a run where every call succeeds, \<open>getFaucetBalance\<close> compares the
  faucet's token address with the expected address after lower-casing both; when they
  differ it writes the mismatch message with \<open>console.error\<close> and goes on: the
  faucet's balance is still queried and returned. The direct balance read is made on
  the token contract at the address the faucet reported, and its value is formatted
  with the decimals that contract answered, not with a fixed 6.
\<close>

theorem getFaucetBalance_cross_validation:
  assumes "window_ethereum e" and "signer_result e = Inr s"
    and "usdcToken_result e = Inr tok"
    and "getFaucetBalance_result e = Inr bal"
    and "decimals_result e tok = Inr d" and "unat d \<le> 80"
    and "balanceOf_result e tok FAUCET_ADDRESS = Inr direct"
  shows "getFaucetBalance e =
     (Inr (fixed_toString (uint bal) 6),
      [console_log [Txt ''Getting faucet balance...''],
       Request getSigner,
       Request (Call FAUCET_ADDRESS ''usdcToken'' []),
       console_log [Txt ''USDC token address from faucet:'', Txt tok],
       console_log [Txt ''Expected USDC address:'', Txt EXPECTED_USDC]] @
      (if toLowerCase tok \<noteq> toLowerCase EXPECTED_USDC
       then [console_error [Txt MISMATCH_MESSAGE]] else []) @
      [console_log [Txt ''Connected to contract at:'', Txt FAUCET_ADDRESS],
       Request (Call FAUCET_ADDRESS ''getFaucetBalance'' []),
       console_log [Txt ''Raw balance (BigInt):'', Txt (digits (unat bal))],
       console_log [Txt ''Formatted balance:'', Txt (fixed_toString (uint bal) 6)],
       Request (Call tok ''decimals'' []),
       console_log [Txt ''USDC token decimals:'', Big (uint d)],
       Request (Call tok ''balanceOf'' [Addr FAUCET_ADDRESS]),
       console_log [Txt ''Direct balance check:'',
                    Txt (fixed_toString (uint direct) (unat d))]])"
  using assms
  by (simp add: getFaucetBalance_def getFaucetBalance_try_def getFaucetContract_ok io_defs
      Let_def contract_usdcToken_def contract_getFaucetBalance_def contract_decimals_def
      contract_balanceOf_def formatUnits_uint256)

theorem getFaucetBalance_cross_validation_witness:
  "toLowerCase ''0xdead'' \<noteq> toLowerCase EXPECTED_USDC \<and>
   getFaucetBalance env_drift =
     (Inr ''2.5'',
      [console_log [Txt ''Getting faucet balance...''],
       Request getSigner,
       Request (Call FAUCET_ADDRESS ''usdcToken'' []),
       console_log [Txt ''USDC token address from faucet:'', Txt ''0xdead''],
       console_log [Txt ''Expected USDC address:'', Txt EXPECTED_USDC],
       console_error [Txt MISMATCH_MESSAGE],
       console_log [Txt ''Connected to contract at:'', Txt FAUCET_ADDRESS],
       Request (Call FAUCET_ADDRESS ''getFaucetBalance'' []),
       console_log [Txt ''Raw balance (BigInt):'', Txt ''2500000''],
       console_log [Txt ''Formatted balance:'', Txt ''2.5''],
       Request (Call ''0xdead'' ''decimals'' []),
       console_log [Txt ''USDC token decimals:'', Big 2],
       Request (Call ''0xdead'' ''balanceOf'' [Addr FAUCET_ADDRESS]),
       console_log [Txt ''Direct balance check:'', Txt ''25000.0'']]) \<and>
   toLowerCase ''0x1904F0522FC7F10517175BD0E546430F1CF0B9FA'' = toLowerCase EXPECTED_USDC \<and>
   console_error [Txt MISMATCH_MESSAGE] \<notin> set (snd (getFaucetBalance env_ok))"
proof -
  have h: "window_ethereum env_drift" "signer_result env_drift = Inr ACCOUNT_A_CHECKSUMMED"
    "usdcToken_result env_drift = Inr ''0xdead''"
    "getFaucetBalance_result env_drift = Inr 2500000"
    "decimals_result env_drift ''0xdead'' = Inr 2" "unat (2 :: 8 word) \<le> 80"
    "balanceOf_result env_drift ''0xdead'' FAUCET_ADDRESS = Inr 2500000"
    by (simp_all add: env_drift_def env_ok_def)
  have k: "window_ethereum env_ok" "signer_result env_ok = Inr ACCOUNT_A_CHECKSUMMED"
    "usdcToken_result env_ok = Inr ''0x1904F0522FC7F10517175BD0E546430F1CF0B9FA''"
    "getFaucetBalance_result env_ok = Inr 2500000"
    "decimals_result env_ok ''0x1904F0522FC7F10517175BD0E546430F1CF0B9FA'' = Inr 6"
    "unat (6 :: 8 word) \<le> 80"
    "balanceOf_result env_ok ''0x1904F0522FC7F10517175BD0E546430F1CF0B9FA'' FAUCET_ADDRESS =
       Inr 2500000"
    by (simp_all add: env_ok_def)
  have low: "toLowerCase ''0xdead'' \<noteq> toLowerCase EXPECTED_USDC"
    "toLowerCase ''0x1904F0522FC7F10517175BD0E546430F1CF0B9FA'' = toLowerCase EXPECTED_USDC"
    by (simp_all add: toLowerCase_def EXPECTED_USDC_def)
  have v: "fixed_toString (uint (2500000 :: 256 word)) 6 = ''2.5''"
    "fixed_toString (uint (2500000 :: 256 word)) (unat (2 :: 8 word)) = ''25000.0''"
    "digits (unat (2500000 :: 256 word)) = ''2500000''"
    by (simp_all add: eval_defs Let_def)
  show ?thesis
    using getFaucetBalance_cross_validation [OF h] getFaucetBalance_cross_validation [OF k] low
    unfolding v by simp
qed

end
